(* ===== verification/Prelude.thy ===== *)
theory Prelude
  imports Main "HOL-Library.Char_ord" "HOL-Library.List_Lexorder" "HOL-Library.Sublist"
    "HOL-Library.Multiset"
begin

text \<open>
  Shared vocabulary of the development: the Python builtins on \<open>str\<close> and \<open>int\<close>
  that the repository's code calls (\<open>str.lower\<close>, \<open>str.upper\<close>, \<open>in\<close>, \<open>strip\<close>,
  \<open>rstrip\<close>, \<open>endswith\<close>, \<open>"sep".join\<close>, truthiness, \<open>int()\<close> with its
  \<open>ValueError\<close>s and \<open>repr\<close>, \<open>f"{n}"\<close> and \<open>f"{n:,}"\<close>) and
  the three regular-expression shapes it uses (\<open>top\s+(\d+)\<close>, \<open>[A-Z]\d+\<close> with an
  optional \<open>client\s+\<close> prefix, and \<open>\bword\b\<close> substitution under
  \<open>re.IGNORECASE\<close>). Strings are byte strings (\<open>char list\<close>, UTF-8 encoded);
  letters, digits and whitespace are the ASCII ones. Python's \<open>re.search\<close> finds the
  leftmost match; \<open>search\<close> below is that scan over an anchored matcher.
\<close>

named_theorems str_simps "evaluation rules of the Python string model"

subsection \<open>Characters\<close>

definition is_upper :: "char \<Rightarrow> bool" where
  "is_upper c \<longleftrightarrow> CHR ''A'' \<le> c \<and> c \<le> CHR ''Z''"

definition is_lower :: "char \<Rightarrow> bool" where
  "is_lower c \<longleftrightarrow> CHR ''a'' \<le> c \<and> c \<le> CHR ''z''"

definition is_digit :: "char \<Rightarrow> bool" where
  "is_digit c \<longleftrightarrow> CHR ''0'' \<le> c \<and> c \<le> CHR ''9''"

text \<open>\<open>str.isspace\<close> and the regex class \<open>\s\<close> on ASCII: tab to carriage return,
  the four separators 0x1C--0x1F, and the space.\<close>

definition is_space :: "char \<Rightarrow> bool" where
  "is_space c \<longleftrightarrow> (CHR 0x09 \<le> c \<and> c \<le> CHR 0x0D) \<or> (CHR 0x1C \<le> c \<and> c \<le> CHR 0x20)"

text \<open>The regex class \<open>\w\<close>: letters, digits, underscore; a byte of a multi-byte UTF-8
  sequence counts as part of a (non-ASCII) word character.\<close>

definition is_word_char :: "char \<Rightarrow> bool" where
  "is_word_char c \<longleftrightarrow> is_upper c \<or> is_lower c \<or> is_digit c \<or> c = CHR ''_'' \<or> CHR 0x80 \<le> c"

definition lower_char :: "char \<Rightarrow> char" where
  "lower_char c = (if is_upper c then char_of (of_char c + (32::nat)) else c)"

definition upper_char :: "char \<Rightarrow> char" where
  "upper_char c = (if is_lower c then char_of (of_char c - (32::nat)) else c)"

text \<open>\<open>str.lower()\<close> and \<open>str.upper()\<close>.\<close>

definition lower :: "string \<Rightarrow> string" where
  "lower s = map lower_char s"

definition upper :: "string \<Rightarrow> string" where
  "upper s = map upper_char s"

subsection \<open>Substrings: Python's \<open>needle in hay\<close>\<close>

fun contains :: "string \<Rightarrow> string \<Rightarrow> bool" where
  "contains [] w = (w = [])"
| "contains (c # cs) w = (prefix w (c # cs) \<or> contains cs w)"

definition endswith :: "string \<Rightarrow> string \<Rightarrow> bool" where
  "endswith s w \<longleftrightarrow> suffix w s"

text \<open>\<open>s.strip()\<close> and \<open>s.rstrip(c)\<close>.\<close>

definition strip :: "string \<Rightarrow> string" where
  "strip s = rev (dropWhile is_space (rev (dropWhile is_space s)))"

definition rstrip_char :: "char \<Rightarrow> string \<Rightarrow> string" where
  "rstrip_char c s = rev (dropWhile (\<lambda>x. x = c) (rev s))"

text \<open>\<open>len(s)\<close> of a \<open>str\<close>: the number of code points, that is of the bytes of its
  UTF-8 encoding that do not continue a multi-byte sequence (0x80--0xBF).\<close>

definition is_cont_byte :: "char \<Rightarrow> bool" where
  "is_cont_byte c \<longleftrightarrow> CHR 0x80 \<le> c \<and> c \<le> CHR 0xBF"

definition py_len :: "string \<Rightarrow> nat" where
  "py_len s = length (filter (\<lambda>c. \<not> is_cont_byte c) s)"

text \<open>\<open>sep.join(xs)\<close>.\<close>

fun join :: "string \<Rightarrow> string list \<Rightarrow> string" where
  "join sep [] = []"
| "join sep [x] = x"
| "join sep (x # y # xs) = x @ sep @ join sep (y # xs)"

text \<open>\<open>s.split(d)\<close> for a one-character separator: always at least one piece.\<close>

fun split_on :: "char \<Rightarrow> string \<Rightarrow> string list" where
  "split_on d [] = [[]]"
| "split_on d (c # cs) =
     (if c = d then [] # split_on d cs
      else (case split_on d cs of [] \<Rightarrow> [[c]] | l # ls \<Rightarrow> (c # l) # ls))"

definition newline :: string where
  "newline = [CHR 0x0A]"

text \<open>Truthiness of a value of type \<open>str | None\<close>, such as the result of
  \<open>os.getenv(k)\<close>: \<open>bool(v)\<close>, the negation of \<open>not v\<close>, holds when it is set and
  non-empty.\<close>

definition configured :: "string option \<Rightarrow> bool" where
  "configured v = (case v of None \<Rightarrow> False | Some s \<Rightarrow> s \<noteq> [])"

subsection \<open>Integers and their decimal text\<close>

definition digit_char :: "nat \<Rightarrow> char" where
  "digit_char d = char_of (48 + d)"

definition digit_val :: "char \<Rightarrow> nat" where
  "digit_val c = of_char c - 48"

text \<open>\<open>str(n)\<close> and \<open>f"{n}"\<close> for a non-negative integer.\<close>

fun show_nat :: "nat \<Rightarrow> string" where
  "show_nat n = (if n < 10 then [digit_char n] else show_nat (n div 10) @ [digit_char (n mod 10)])"

declare show_nat.simps [simp del]

text \<open>The value of a run of decimal digits, as \<open>int()\<close> computes it.\<close>

definition nat_of_digits :: "string \<Rightarrow> nat" where
  "nat_of_digits ds = foldl (\<lambda>a c. 10 * a + digit_val c) 0 ds"

text \<open>
  Python 3.11 and later refuse \<open>int()\<close> of a decimal string longer than
  \<open>sys.get_int_max_str_digits()\<close> (4300 by default) with a \<open>ValueError\<close>.
\<close>

definition int_max_str_digits :: nat where
  "int_max_str_digits = 4300"

text \<open>The two \<open>ValueError\<close>s of \<open>int(s)\<close> for a \<open>str\<close> \<open>s\<close>: too many digits,
  and a text that is not an integer literal (the argument is kept for the message).\<close>

datatype py_error = IntMaxStrDigits nat | InvalidLiteral string

definition py_int :: "string \<Rightarrow> py_error + nat" where
  "py_int ds =
     (if int_max_str_digits < length ds then Inl (IntMaxStrDigits (length ds))
      else Inr (nat_of_digits ds))"

text \<open>
  \<open>repr(s)\<close> of a \<open>str\<close>: single quotes unless the text has a single quote and no
  double quote; the backslash, the chosen quote, tab, newline and carriage return are
  escaped, other control characters are written \<open>\xNN\<close>. Bytes of non-ASCII
  characters are copied, as \<open>repr\<close> copies printable non-ASCII characters.
\<close>

definition hex_digit :: "nat \<Rightarrow> char" where
  "hex_digit d = (if d < 10 then digit_char d else char_of (87 + d))"

definition repr_quote :: "string \<Rightarrow> char" where
  "repr_quote s = (if CHR 0x27 \<in> set s \<and> CHR 0x22 \<notin> set s then CHR 0x22 else CHR 0x27)"

definition repr_char :: "char \<Rightarrow> char \<Rightarrow> string" where
  "repr_char q c =
     (if c = q \<or> c = CHR 0x5C then [CHR 0x5C, c]
      else if c = CHR 0x09 then [CHR 0x5C, CHR ''t'']
      else if c = CHR 0x0A then [CHR 0x5C, CHR ''n'']
      else if c = CHR 0x0D then [CHR 0x5C, CHR ''r'']
      else if c < CHR 0x20 \<or> c = CHR 0x7F
      then [CHR 0x5C, CHR ''x'', hex_digit (of_char c div 16), hex_digit (of_char c mod 16)]
      else [c])"

definition py_repr :: "string \<Rightarrow> string" where
  "py_repr s = (let q = repr_quote s in q # concat (map (repr_char q) s) @ [q])"

text \<open>The messages of the two errors; CPython formats the argument with \<open>%.200R\<close>,
  its \<open>repr\<close> cut to 200 characters.\<close>

definition py_error_str :: "py_error \<Rightarrow> string" where
  "py_error_str e = (case e of
       IntMaxStrDigits n \<Rightarrow>
         ''Exceeds the limit (4300 digits) for integer string conversion: value has ''
         @ show_nat n @ '' digits; use sys.set_int_max_str_digits() to increase the limit''
     | InvalidLiteral s \<Rightarrow> ''invalid literal for int() with base 10: '' @ take 200 (py_repr s))"

text \<open>
  \<open>int(s)\<close> for a \<open>str\<close>: surrounding whitespace is ignored, an optional sign is
  followed by decimal digits in which single underscores may separate two digits, and the
  digit count (underscores not counted) is limited as above. The literal is checked
  before the digit count.
\<close>

definition int_digits_ok :: "string \<Rightarrow> bool" where
  "int_digits_ok b \<longleftrightarrow>
     b \<noteq> [] \<and> is_digit (hd b) \<and> is_digit (last b) \<and>
     (\<forall>c \<in> set b. is_digit c \<or> c = CHR ''_'') \<and> \<not> contains b ''__''"

definition split_sign :: "string \<Rightarrow> bool \<times> string" where
  "split_sign t =
     (case t of
        c # r \<Rightarrow> if c = CHR ''-'' then (True, r) else if c = CHR ''+'' then (False, r) else (False, t)
      | [] \<Rightarrow> (False, []))"

definition py_int_str :: "string \<Rightarrow> py_error + int" where
  "py_int_str s =
     (let (neg, b) = split_sign (strip s); ds = filter is_digit b
      in if \<not> int_digits_ok b then Inl (InvalidLiteral s)
         else if int_max_str_digits < length ds then Inl (IntMaxStrDigits (length ds))
         else Inr ((if neg then - 1 else 1) * int (nat_of_digits ds)))"

text \<open>\<open>f"{n:,}"\<close>: the decimal digits grouped by three from the right, with commas.\<close>

function group3 :: "string \<Rightarrow> string" where
  "group3 ds = (if length ds \<le> 3 then ds
                else group3 (take (length ds - 3) ds) @ CHR '','' # drop (length ds - 3) ds)"
  by pat_completeness auto
termination
  by (relation "measure length") auto

declare group3.simps [simp del]

definition fmt_thousands :: "nat \<Rightarrow> string" where
  "fmt_thousands n = group3 (show_nat n)"

subsection \<open>Regular expressions\<close>

text \<open>\<open>re.search\<close>: the first position where the anchored matcher succeeds.\<close>

fun search :: "(string \<Rightarrow> 'a option) \<Rightarrow> string \<Rightarrow> 'a option" where
  "search m [] = m []"
| "search m (c # cs) = (case m (c # cs) of Some r \<Rightarrow> Some r | None \<Rightarrow> search m cs)"

text \<open>
  \<open>top\s+(\d+)\<close> anchored at the start: \<open>\s\<close> and \<open>\d\<close> are disjoint, so the
  greedy match never backtracks and group 1 is the whole run of digits.
\<close>

definition top_n_at :: "string \<Rightarrow> string option" where
  "top_n_at s =
     (if take 3 s = ''top'' then
        (let r = drop 3 s; ds = takeWhile is_digit (dropWhile is_space r)
         in if takeWhile is_space r \<noteq> [] \<and> ds \<noteq> [] then Some ds else None)
      else None)"

text \<open>\<open>([A-Z]\d+)\<close> anchored: an upper-case letter and the run of digits after it.\<close>

definition upper_id_at :: "string \<Rightarrow> string option" where
  "upper_id_at s =
     (case s of [] \<Rightarrow> None
      | c # r \<Rightarrow> (let ds = takeWhile is_digit r
                  in if is_upper c \<and> ds \<noteq> [] then Some (c # ds) else None))"

text \<open>\<open>client\s+([A-Z]\d+)\<close> anchored.\<close>

definition client_id_at :: "string \<Rightarrow> string option" where
  "client_id_at s =
     (if take 6 s = ''client'' \<and> takeWhile is_space (drop 6 s) \<noteq> []
      then upper_id_at (dropWhile is_space (drop 6 s)) else None)"

text \<open>
  \<open>re.sub(rf'\b{w}\b', r, s, flags=re.IGNORECASE)\<close> for a word \<open>w\<close> that starts
  and ends with a word character: a match at a position needs a non-word character (or
  the start) before it, the text of \<open>w\<close> up to case, and a non-word character (or the
  end) after it. The scan resumes after the match; \<open>prev\<close> is the original character
  before the current position, since \<open>\b\<close> looks at the input, not at the output.
\<close>

definition word_at :: "string \<Rightarrow> char option \<Rightarrow> string \<Rightarrow> bool" where
  "word_at w prev s \<longleftrightarrow>
     w \<noteq> [] \<and> (case prev of None \<Rightarrow> True | Some p \<Rightarrow> \<not> is_word_char p) \<and>
     length w \<le> length s \<and> lower (take (length w) s) = lower w \<and>
     (case drop (length w) s of [] \<Rightarrow> True | c # _ \<Rightarrow> \<not> is_word_char c)"

function sub_word :: "string \<Rightarrow> string \<Rightarrow> char option \<Rightarrow> string \<Rightarrow> string" where
  "sub_word w r prev s =
     (case s of [] \<Rightarrow> []
      | c # cs \<Rightarrow>
          if word_at w prev s then r @ sub_word w r (Some (last (take (length w) s))) (drop (length w) s)
          else c # sub_word w r (Some c) cs)"
  by pat_completeness auto
termination
  by (relation "measure (\<lambda>(w, r, prev, s). length s)") (auto simp: word_at_def)

declare sub_word.simps [simp del]

definition re_sub_word :: "string \<Rightarrow> string \<Rightarrow> string \<Rightarrow> string" where
  "re_sub_word w r s = sub_word w r None s"

subsection \<open>Sorting\<close>

text \<open>
  \<open>sorted(xs, key=k, reverse=r)\<close> and \<open>xs.sort(key=k, reverse=r)\<close>: CPython sorts
  stably, and with \<open>reverse=True\<close> it reverses the list, sorts it, and reverses the
  result, so that elements with equal keys keep their original order.
\<close>

definition py_sorted :: "('a \<Rightarrow> 'k::linorder) \<Rightarrow> bool \<Rightarrow> 'a list \<Rightarrow> 'a list" where
  "py_sorted key reverse xs = (if reverse then rev (sort_key key (rev xs)) else sort_key key xs)"

fun word_free :: "string \<Rightarrow> char option \<Rightarrow> string \<Rightarrow> bool" where
  "word_free w prev [] = True"
| "word_free w prev (c # cs) = (\<not> word_at w prev (c # cs) \<and> word_free w (Some c) cs)"

subsection \<open>Lemmas on the string model\<close>

lemma contains_iff_sublist: "contains s w \<longleftrightarrow> sublist w s"
  by (induction s) (auto simp: sublist_Cons_right)

lemma contains_Nil_needle [simp]: "contains s []"
  by (simp add: contains_iff_sublist)

lemma is_upper_iff: "is_upper c \<longleftrightarrow> 65 \<le> (of_char c :: nat) \<and> (of_char c :: nat) \<le> 90"
  by (simp add: is_upper_def less_eq_char_def)

lemma is_digit_iff: "is_digit c \<longleftrightarrow> 48 \<le> (of_char c :: nat) \<and> (of_char c :: nat) \<le> 57"
  by (simp add: is_digit_def less_eq_char_def)

lemma not_upper_lower_char [simp]: "\<not> is_upper (lower_char c)"
  by (auto simp: lower_char_def is_upper_iff)

lemma lower_char_idem [simp]: "lower_char (lower_char c) = lower_char c"
  by (metis lower_char_def not_upper_lower_char)

lemma lower_idem [simp]: "lower (lower s) = lower s"
  by (simp add: lower_def)

lemma lower_upper_char: "lower_char (upper_char c) = lower_char c"
proof (cases "is_lower c")
  case True
  then have n: "97 \<le> (of_char c :: nat)" "(of_char c :: nat) \<le> 122"
    by (simp_all add: is_lower_def less_eq_char_def)
  then have u: "of_char (char_of (of_char c - (32::nat)) :: char) = (of_char c - 32 :: nat)"
    by (simp add: of_char_of)
  have "is_upper (char_of (of_char c - (32::nat)))"
    using n u by (simp add: is_upper_iff) linarith
  moreover have "\<not> is_upper c"
    using n by (simp add: is_upper_iff)
  ultimately show ?thesis
    using True n u by (simp add: lower_char_def upper_char_def char_of_nat of_char_of)
next
  case False
  then show ?thesis by (simp add: upper_char_def)
qed

lemma lower_upper: "lower (upper s) = lower s"
  by (simp add: lower_def upper_def lower_upper_char)

lemma lower_append [simp]: "lower (xs @ ys) = lower xs @ lower ys"
  by (simp add: lower_def)

lemma set_lower_no_upper: "c \<in> set (lower s) \<Longrightarrow> \<not> is_upper c"
  by (auto simp: lower_def)

lemma upper_id_at_lower: "(\<forall>c \<in> set s. \<not> is_upper c) \<Longrightarrow> upper_id_at s = None"
  by (auto simp: upper_id_at_def Let_def split: list.splits)

lemma search_no_upper:
  assumes "\<forall>c \<in> set s. \<not> is_upper c"
    and "\<And>t. set t \<subseteq> set s \<Longrightarrow> m t \<noteq> None \<Longrightarrow> \<exists>c \<in> set t. is_upper c"
  shows "search m s = None"
  using assms
proof (induction s)
  case Nil
  then show ?case by (cases "m []") auto
next
  case (Cons c cs)
  then have "m (c # cs) = None" by (metis order_refl)
  moreover have "search m cs = None"
    using Cons by (meson set_subset_Cons subset_trans list.set_intros(2))
  ultimately show ?case by simp
qed

lemma upper_id_at_upper: "upper_id_at t \<noteq> None \<Longrightarrow> \<exists>c \<in> set t. is_upper c"
  by (auto simp: upper_id_at_def Let_def split: list.splits if_splits)

lemma client_id_at_upper: "client_id_at t \<noteq> None \<Longrightarrow> \<exists>c \<in> set t. is_upper c"
proof -
  assume "client_id_at t \<noteq> None"
  then have "upper_id_at (dropWhile is_space (drop 6 t)) \<noteq> None"
    by (simp add: client_id_at_def split: if_splits)
  then obtain c where "c \<in> set (dropWhile is_space (drop 6 t))" "is_upper c"
    using upper_id_at_upper by blast
  then show ?thesis
    by (meson in_set_dropD set_dropWhileD)
qed

lemma digit_val_digit_char [simp]: "d < 10 \<Longrightarrow> digit_val (digit_char d) = d"
  by (simp add: digit_val_def digit_char_def)

lemma is_digit_digit_char [simp]: "d < 10 \<Longrightarrow> is_digit (digit_char d)"
  by (simp add: is_digit_iff digit_char_def)

lemma nat_of_digits_snoc [simp]:
  "nat_of_digits (ds @ [c]) = 10 * nat_of_digits ds + digit_val c"
  by (simp add: nat_of_digits_def)

lemma show_nat_digits: "\<forall>c \<in> set (show_nat n). is_digit c"
proof (induction n rule: show_nat.induct)
  case (1 n)
  then show ?case by (subst show_nat.simps) auto
qed

lemma show_nat_not_Nil [simp]: "show_nat n \<noteq> []"
  by (subst show_nat.simps) simp

lemma nat_of_digits_show_nat [simp]: "nat_of_digits (show_nat n) = n"
proof (induction n rule: show_nat.induct)
  case (1 n)
  show ?case
  proof (cases "n < 10")
    case True
    then show ?thesis by (subst show_nat.simps) (simp add: nat_of_digits_def)
  next
    case False
    with "1.IH" show ?thesis by (subst show_nat.simps) simp
  qed
qed

lemma group3_drop_commas:
  "filter (\<lambda>c. c \<noteq> CHR '','') (group3 ds) = filter (\<lambda>c. c \<noteq> CHR '','') ds"
proof (induction ds rule: group3.induct)
  case (1 ds)
  show ?case
  proof (cases "length ds \<le> 3")
    case True
    then show ?thesis by (subst group3.simps) simp
  next
    case False
    then have "filter (\<lambda>c. c \<noteq> CHR '','') (group3 ds)
        = filter (\<lambda>c. c \<noteq> CHR '','') (take (length ds - 3) ds)
          @ filter (\<lambda>c. c \<noteq> CHR '','') (drop (length ds - 3) ds)"
      using "1.IH" by (subst group3.simps) simp
    then show ?thesis by (metis append_take_drop_id filter_append)
  qed
qed

lemma digit_not_comma: "is_digit c \<Longrightarrow> c \<noteq> CHR '',''"
  by (auto simp: is_digit_def)

lemma fmt_thousands_drop_commas:
  "filter (\<lambda>c. c \<noteq> CHR '','') (fmt_thousands n) = show_nat n"
proof -
  have "\<forall>c \<in> set (show_nat n). c \<noteq> CHR '',''"
    using show_nat_digits digit_not_comma by blast
  then show ?thesis
    by (simp add: fmt_thousands_def group3_drop_commas)
qed

lemma sub_word_free: "word_free w prev s \<Longrightarrow> sub_word w r prev s = s"
proof (induction s arbitrary: prev)
  case Nil
  then show ?case by (simp add: sub_word.simps)
next
  case (Cons c cs)
  then show ?case by (subst sub_word.simps) simp
qed

lemma mset_py_sorted [simp]: "mset (py_sorted k r xs) = mset xs"
  by (simp add: py_sorted_def)

lemma set_py_sorted [simp]: "set (py_sorted k r xs) = set xs"
  by (metis mset_py_sorted set_mset_mset)

lemma length_py_sorted [simp]: "length (py_sorted k r xs) = length xs"
  by (metis mset_py_sorted size_mset)

lemma py_sorted_Nil_iff [simp]: "py_sorted k r xs = [] \<longleftrightarrow> xs = []"
  by (metis length_py_sorted length_0_conv)

lemma py_sorted_desc: "sorted_wrt (\<ge>) (map k (py_sorted k True xs))"
proof -
  have "sorted (map k (sort_key k (rev xs)))" by simp
  then show ?thesis
    by (simp add: py_sorted_def rev_map [symmetric] sorted_wrt_rev)
qed

lemma py_sorted_asc: "sorted (map k (py_sorted k False xs))"
  by (simp add: py_sorted_def)

text \<open>Stability: the elements of one key keep their order in the input.\<close>

lemma py_sorted_stable: "filter (\<lambda>y. k y = v) (py_sorted k r xs) = filter (\<lambda>y. k y = v) xs"
  by (simp add: py_sorted_def rev_filter [symmetric] sort_key_stable)

text \<open>Taking a prefix of a list keeps, of every class, a prefix of that class.\<close>

lemma filter_take_prefix: "\<exists>m. filter P (take n xs) = take m (filter P xs)"
proof -
  have "filter P xs = filter P (take n xs) @ filter P (drop n xs)"
    by (metis append_take_drop_id filter_append)
  then show ?thesis by (metis append_eq_conv_conj)
qed

text \<open>A prefix of a descending list holds its largest elements.\<close>

lemma take_desc_max:
  assumes "sorted_wrt (\<ge>) (map k xs)" "x \<in> set (take n xs)" "y \<in> set (drop n xs)"
  shows "k y \<le> k x"
proof -
  have "sorted_wrt (\<ge>) (map k (take n xs) @ map k (drop n xs))"
    using assms(1) by (metis append_take_drop_id map_append)
  then show ?thesis using assms(2,3) by (auto simp: sorted_wrt_append)
qed

lemma split_on_not_Nil [simp]: "split_on d s \<noteq> []"
  by (induction s) (auto split: list.splits)

lemma split_on_free: "d \<notin> set s \<Longrightarrow> split_on d s = [s]"
  by (induction s) auto

lemma split_on_append_sep:
  "d \<notin> set x \<Longrightarrow> split_on d (x @ d # s) = x # split_on d s"
  by (induction x) auto

text \<open>Splitting a join at its separator gives the pieces back, and joining the pieces
  of a split gives the string back.\<close>

lemma split_on_join:
  "xs \<noteq> [] \<Longrightarrow> \<forall>x \<in> set xs. d \<notin> set x \<Longrightarrow> split_on d (join [d] xs) = xs"
proof (induction "[d]" xs rule: join.induct)
  case (2 x)
  then show ?case by (simp add: split_on_free)
next
  case (3 x y xs)
  then show ?case by (simp add: split_on_append_sep)
qed simp

lemma join_split_on: "join [d] (split_on d s) = s"
proof (induction s)
  case Nil
  then show ?case by simp
next
  case (Cons c cs)
  show ?case
  proof (cases "c = d")
    case True
    with Cons show ?thesis by (cases "split_on d cs") auto
  next
    case False
    with Cons show ?thesis
      by (cases "split_on d cs" rule: remdups_adj.cases) auto
  qed
qed

lemma split_newline_join:
  "xs \<noteq> [] \<Longrightarrow> \<forall>x \<in> set xs. CHR 0x0A \<notin> set x \<Longrightarrow> split_on (CHR 0x0A) (join newline xs) = xs"
  by (simp add: newline_def split_on_join)

lemma set_group3: "set (group3 ds) \<subseteq> set ds \<union> {CHR '',''}"
proof (induction ds rule: group3.induct)
  case (1 ds)
  show ?case
  proof (cases "length ds \<le> 3")
    case True
    then show ?thesis by (subst group3.simps) auto
  next
    case False
    with "1.IH" have "set (group3 (take (length ds - 3) ds)) \<subseteq> set ds \<union> {CHR '',''}"
      by (meson in_set_takeD subset_iff Un_iff)
    with False show ?thesis
      by (subst group3.simps) (auto dest: in_set_dropD)
  qed
qed

lemma set_fmt_thousands: "c \<in> set (fmt_thousands n) \<Longrightarrow> is_digit c \<or> c = CHR '',''"
  using set_group3 [of "show_nat n"] show_nat_digits [of n]
  by (auto simp: fmt_thousands_def)

lemma newline_not_in_fmt_thousands [simp]: "CHR 0x0A \<notin> set (fmt_thousands n)"
  using set_fmt_thousands [of "CHR 0x0A" n] by (auto simp: is_digit_def)

lemma newline_not_in_show_nat [simp]: "CHR 0x0A \<notin> set (show_nat n)"
  using show_nat_digits [of n] by (auto simp: is_digit_def)

lemma dropWhile_all_not: "\<forall>c \<in> set s. \<not> P c \<Longrightarrow> dropWhile P s = s"
  by (induction s) auto

lemma digit_not_space: "is_digit c \<Longrightarrow> \<not> is_space c"
  by (auto simp: is_digit_iff is_space_def less_eq_char_def)

lemma strip_no_space: "\<forall>c \<in> set s. \<not> is_space c \<Longrightarrow> strip s = s"
  by (simp add: strip_def dropWhile_all_not)

lemma digits_ok:
  assumes "ds \<noteq> []" and "\<forall>c \<in> set ds. is_digit c"
  shows "int_digits_ok ds"
proof -
  have "\<not> contains ds ''__''"
  proof
    assume "contains ds ''__''"
    then have "CHR ''_'' \<in> set ds"
      by (auto simp: contains_iff_sublist dest: set_mono_sublist)
    with assms(2) show False by (auto simp: is_digit_def)
  qed
  with assms show ?thesis
    by (simp add: int_digits_ok_def)
qed

text \<open>On a run of digits, with or without a minus sign, \<open>int(s)\<close> agrees with the
  digit-run conversion \<open>py_int\<close> used after a regular-expression match.\<close>

lemma py_int_str_digits:
  assumes "ds \<noteq> []" and "\<forall>c \<in> set ds. is_digit c"
  shows "py_int_str ds = (case py_int ds of Inl e \<Rightarrow> Inl e | Inr n \<Rightarrow> Inr (int n))"
proof -
  have "strip ds = ds"
    using assms(2) digit_not_space strip_no_space by blast
  moreover have "split_sign ds = (False, ds)"
    using assms by (cases ds) (auto simp: split_sign_def is_digit_def)
  moreover have "filter is_digit ds = ds"
    using assms(2) by simp
  ultimately show ?thesis
    using digits_ok [OF assms] by (simp add: py_int_str_def py_int_def)
qed

lemma py_int_str_minus_digits:
  assumes "ds \<noteq> []" and "\<forall>c \<in> set ds. is_digit c"
  shows "py_int_str (CHR ''-'' # ds) = (case py_int ds of Inl e \<Rightarrow> Inl e | Inr n \<Rightarrow> Inr (- int n))"
proof -
  have "\<forall>c \<in> set (CHR ''-'' # ds). \<not> is_space c"
    using assms(2) digit_not_space by (auto simp: is_space_def)
  then have "strip (CHR ''-'' # ds) = CHR ''-'' # ds"
    by (rule strip_no_space)
  moreover have "filter is_digit ds = ds"
    using assms(2) by simp
  ultimately show ?thesis
    using digits_ok [OF assms] by (simp add: py_int_str_def py_int_def split_sign_def)
qed

lemma top_n_at_top: "top_n_at s = Some ds \<Longrightarrow> take 3 s = ''top''"
  by (simp add: top_n_at_def split: if_splits)

lemma search_top_n_contains: "search top_n_at s = Some ds \<Longrightarrow> contains s ''top''"
proof (induction s)
  case Nil
  then show ?case by (simp add: top_n_at_def)
next
  case (Cons c cs)
  show ?case
  proof (cases "top_n_at (c # cs)")
    case None
    with Cons show ?thesis by simp
  next
    case (Some r)
    then have "take 3 (c # cs) = ''top''" by (rule top_n_at_top)
    then have "prefix ''top'' (c # cs)" by (metis take_is_prefix)
    then show ?thesis by simp
  qed
qed

lemmas eval_simps [str_simps] = show_nat.simps digit_char_def group3.simps fmt_thousands_def
  lower_def lower_char_def upper_def upper_char_def is_upper_def is_lower_def is_digit_def
  is_space_def strip_def char_of_def bit_0 digit_val_def py_int_def int_max_str_digits_def
  nat_of_digits_def top_n_at_def client_id_at_def upper_id_at_def newline_def py_sorted_def

lemmas int_str_simps = py_int_str_def split_sign_def int_digits_ok_def py_error_str_def
  py_repr_def repr_quote_def repr_char_def hex_digit_def

text \<open>Decimal round trip of \<open>int()\<close>: the text of a natural number with at most 4300
  digits, with or without a minus sign, reads back as that number or its negation.\<close>

lemma py_int_str_show_nat:
  assumes "length (show_nat n) \<le> int_max_str_digits"
  shows "py_int_str (show_nat n) = Inr (int n) \<and> py_int_str (CHR ''-'' # show_nat n) = Inr (- int n)"
  using assms py_int_str_digits [OF show_nat_not_Nil show_nat_digits, of n]
    py_int_str_minus_digits [OF show_nat_not_Nil show_nat_digits, of n]
  by (simp add: py_int_def)

end
