(* ===== verification/Classifier.thy ===== *)
theory Classifier
  imports Prelude
begin

text \<open>
  The intent classifier \<open>determine_query_type\<close> of \<open>src/backend/main.py\<close>: the
  keyword tables, the keyword scores, and the priority-ordered special cases. The result
  is the string \<open>'mongo'\<close> or \<open>'sql'\<close>, here the datatype \<open>domain\<close>. The
  properties are the spec's steps: case is ignored, the special cases come first, and
  the top-N rule comes before the keyword scores.
\<close>

datatype domain = Mongo | Sql

definition mongo_keywords :: "string list" where
  "mongo_keywords = [
     ''client'', ''investor'', ''portfolio'', ''risk'', ''manager'', ''name'', ''who'',
     ''high risk'', ''low risk'', ''medium risk'', ''risk appetite'',
     ''investment preferences'', ''stocks'', ''real estate'', ''bonds'',
     ''top 5'', ''top 10'', ''top 3'', ''top 1'', ''top 2'', ''top 4'', ''top 6'', ''top 7'',
     ''top 8'', ''top 9'',
     ''wealth member'', ''wealth members'', ''relationship manager'', ''rm'',
     ''top relationship'', ''best relationship'', ''top rm'', ''best rm'']"

definition sql_keywords :: "string list" where
  "sql_keywords = [
     ''transaction'', ''amount'', ''invested'', ''stock'', ''date'', ''total'',
     ''sum'', ''average'', ''count'', ''highest'', ''lowest'', ''between'',
     ''this month'', ''last month'', ''this year'', ''last year'',
     ''amount invested'', ''total investment'', ''investment amount'',
     ''breakup'', ''breakdown'', ''group by'', ''per relationship'',
     ''portfolio values'', ''portfolio value'', ''holders of'', ''highest holders'']"

text \<open>\<open>sum(1 for keyword in keywords if keyword in question_lower)\<close>\<close>

definition score :: "string list \<Rightarrow> string \<Rightarrow> nat" where
  "score kws ql = length (filter (contains ql) kws)"

text \<open>\<open>any(word in question_lower for word in ws)\<close>\<close>

definition any_in :: "string list \<Rightarrow> string \<Rightarrow> bool" where
  "any_in ws ql \<longleftrightarrow> list_ex (contains ql) ws"

definition determine_query_type :: "string \<Rightarrow> domain" where
  "determine_query_type question =
     (let ql = lower question;
          mongo_score = score mongo_keywords ql;
          sql_score = score sql_keywords ql
      in if (contains ql ''breakup'' \<or> contains ql ''breakdown'') \<and>
            (contains ql ''relationship manager'' \<or> contains ql ''per relationship'') then Sql
      else if contains ql ''holders of'' \<or> contains ql ''highest holders'' then Sql
      else if (contains ql ''portfolio values'' \<or> contains ql ''portfolio value'') \<and>
              (contains ql ''per'' \<or> contains ql ''by'') then Sql
      else if search top_n_at ql \<noteq> None then
        (if any_in [''client'', ''investor'', ''portfolio'', ''name'', ''who'', ''wealth member''] ql
         then Mongo
         else if any_in [''transaction'', ''amount'', ''invested'', ''stock''] ql then Sql
         else Mongo)
      else if mongo_score = sql_score then
        (if any_in [''name'', ''who'', ''client'', ''investor'', ''wealth member''] ql
         then Mongo else Sql)
      else if sql_score < mongo_score then Mongo else Sql)"

subsection \<open>Properties\<close>

text \<open>
  C1. Step 1 of the classifier: routing ignores letter case. A question routes as its
  lower-cased and as its upper-cased text do, because every rule reads only the
  lower-cased question.
\<close>

theorem determine_query_type_case_insensitive:
  "determine_query_type (upper q) = determine_query_type q \<and>
   determine_query_type (lower q) = determine_query_type q"
  by (simp add: determine_query_type_def lower_upper lower_idem)

text \<open>
  C3. Rule order: a question that asks for a breakup or breakdown and names the
  relationship manager is routed to the transaction store whatever its keyword scores
  and whether or not it is a top-N question.
\<close>

theorem breakup_rm_routes_sql:
  assumes "contains (lower q) ''breakup'' \<or> contains (lower q) ''breakdown''"
    and "contains (lower q) ''relationship manager''"
  shows "determine_query_type q = Sql"
  using assms by (simp add: determine_query_type_def Let_def)

theorem breakup_rm_routes_sql_witness:
  "determine_query_type ''Top 3 clients: breakdown by relationship manager'' = Sql"
proof -
  have "contains (lower ''Top 3 clients: breakdown by relationship manager'') ''breakdown''"
    "contains (lower ''Top 3 clients: breakdown by relationship manager'') ''relationship manager''"
    by code_simp+
  then show ?thesis using breakup_rm_routes_sql by blast
qed


text \<open>
  C2. Rule order: a top-N question that names a client, investor, portfolio, name,
  "who" or wealth member and hits none of the special cases is routed to the client
  store, whatever its keyword scores.
\<close>

theorem top_n_person_routes_mongo:
  assumes "search top_n_at (lower q) \<noteq> None"
    and "any_in [''client'', ''investor'', ''portfolio'', ''name'', ''who'', ''wealth member''] (lower q)"
    and "\<not> contains (lower q) ''breakup''" "\<not> contains (lower q) ''breakdown''"
    and "\<not> contains (lower q) ''holders of''" "\<not> contains (lower q) ''highest holders''"
    and "\<not> contains (lower q) ''portfolio value''"
  shows "determine_query_type q = Mongo"
proof -
  have "\<not> contains (lower q) ''portfolio values''"
  proof
    assume "contains (lower q) ''portfolio values''"
    moreover have "sublist ''portfolio value'' ''portfolio values''"
      by (simp add: sublist_def) (metis append_Nil append_Cons)
    ultimately show False
      using assms(7) by (meson contains_iff_sublist sublist_order.order.trans)
  qed
  with assms show ?thesis
    by (simp add: determine_query_type_def Let_def)
qed

theorem top_n_person_routes_mongo_witness:
  "determine_query_type ''Top 3 clients by total amount invested'' = Mongo \<and>
   score sql_keywords (lower ''Top 3 clients by total amount invested'')
     > score mongo_keywords (lower ''Top 3 clients by total amount invested'')"
proof -
  have h: "search top_n_at (lower ''Top 3 clients by total amount invested'') \<noteq> None"
    "any_in [''client'', ''investor'', ''portfolio'', ''name'', ''who'', ''wealth member'']
       (lower ''Top 3 clients by total amount invested'')"
    "\<not> contains (lower ''Top 3 clients by total amount invested'') ''breakup''"
    "\<not> contains (lower ''Top 3 clients by total amount invested'') ''breakdown''"
    "\<not> contains (lower ''Top 3 clients by total amount invested'') ''holders of''"
    "\<not> contains (lower ''Top 3 clients by total amount invested'') ''highest holders''"
    "\<not> contains (lower ''Top 3 clients by total amount invested'') ''portfolio value''"
    "score sql_keywords (lower ''Top 3 clients by total amount invested'')
       > score mongo_keywords (lower ''Top 3 clients by total amount invested'')"
    by code_simp+
  then show ?thesis
    using top_n_person_routes_mongo [of "''Top 3 clients by total amount invested''"] by simp
qed
end
