(* ===== verification/Roster.thy ===== *)
theory Roster
  imports Prelude
begin

text \<open>
  The static client roster of \<open>src/backend/agents/mongo_agent.py\<close>
  (\<open>mock_clients\<close> in \<open>get_mock_response\<close>), the two list computations the mock
  responder performs on it (ranking by portfolio value and summing portfolio value per
  relationship manager), and their specifications. The operations are stated over any
  client list; \<open>mock_clients\<close> is the instance the code uses.
\<close>

subsection \<open>Client records\<close>

text \<open>\<open>risk_appetite\<close> holds one of the strings \<open>'High'\<close>, \<open>'Medium'\<close>, \<open>'Low'\<close>.\<close>

datatype risk = Low | Medium | High

definition risk_str :: "risk \<Rightarrow> string" where
  "risk_str r = (case r of Low \<Rightarrow> ''Low'' | Medium \<Rightarrow> ''Medium'' | High \<Rightarrow> ''High'')"

record client =
  name :: string
  client_id :: string
  risk_appetite :: risk
  investment_preferences :: "string list"
  portfolio_value :: nat
  rm_id :: string

definition mk_client ::
  "string \<Rightarrow> string \<Rightarrow> risk \<Rightarrow> string list \<Rightarrow> nat \<Rightarrow> string \<Rightarrow> client" where
  "mk_client n i r p v m =
     \<lparr>name = n, client_id = i, risk_appetite = r, investment_preferences = p,
      portfolio_value = v, rm_id = m\<rparr>"

definition mock_clients :: "client list" where
  "mock_clients = [
     mk_client ''Virat Kohli'' ''C001'' High [''Stocks'', ''Real Estate''] 5000000 ''RM001'',
     mk_client ''Rohit Sharma'' ''C002'' Medium [''Stocks'', ''Bonds''] 3500000 ''RM002'',
     mk_client ''MS Dhoni'' ''C003'' Low [''Bonds'', ''Fixed Deposits''] 2000000 ''RM003'',
     mk_client ''KL Rahul'' ''C004'' High [''Stocks'', ''Real Estate'', ''Crypto''] 4500000 ''RM001'',
     mk_client ''Rishabh Pant'' ''C005'' Medium [''Stocks'', ''Mutual Funds''] 3000000 ''RM002'',
     mk_client ''Hardik Pandya'' ''C006'' High [''Stocks'', ''Real Estate''] 4000000 ''RM001'',
     mk_client ''Deepika Padukone'' ''C007'' Medium [''Stocks'', ''Bonds''] 2800000 ''RM003'',
     mk_client ''Salman Khan'' ''C008'' High [''Real Estate'', ''Stocks''] 6000000 ''RM001'',
     mk_client ''Shah Rukh Khan'' ''C009'' High [''Stocks'', ''Real Estate''] 5500000 ''RM002'',
     mk_client ''Dinesh Karthik'' ''C010'' Medium [''Stocks'', ''Mutual Funds''] 2500000 ''RM003'']"

text \<open>\<open>risk_order = {'High': 3, 'Medium': 2, 'Low': 1}\<close>; \<open>.get(r, 0)\<close> always finds
  the key, since every roster entry has one of the three values.\<close>

definition risk_rank :: "risk \<Rightarrow> nat" where
  "risk_rank r = (case r of High \<Rightarrow> 3 | Medium \<Rightarrow> 2 | Low \<Rightarrow> 1)"

subsection \<open>Ranking by portfolio value\<close>

text \<open>\<open>sorted(mock_clients, key=lambda x: x['portfolio_value'], reverse=True)[:limit]\<close>\<close>

definition top_clients :: "nat \<Rightarrow> client list \<Rightarrow> client list" where
  "top_clients limit cs = take limit (py_sorted portfolio_value True cs)"

subsection \<open>Portfolio value per relationship manager\<close>

text \<open>
  The loop \<open>for client in mock_clients: ... rm_groups[rm_id] += client['portfolio_value']\<close>
  over a dict, which keeps keys in order of first insertion: an association list, a new
  key appended at the end with the start value 0.
\<close>

fun add_to_group :: "(string \<times> nat) list \<Rightarrow> string \<Rightarrow> nat \<Rightarrow> (string \<times> nat) list" where
  "add_to_group [] k v = [(k, 0 + v)]"
| "add_to_group ((k', t) # g) k v =
     (if k' = k then (k', t + v) # g else (k', t) # add_to_group g k v)"

definition rm_groups :: "client list \<Rightarrow> (string \<times> nat) list" where
  "rm_groups cs = foldl (\<lambda>g c. add_to_group g (rm_id c) (portfolio_value c)) [] cs"

text \<open>\<open>sorted(rm_groups.items(), key=lambda x: x[1], reverse=True)[:limit]\<close>\<close>

definition top_rms :: "nat \<Rightarrow> client list \<Rightarrow> (string \<times> nat) list" where
  "top_rms limit cs = take limit (py_sorted snd True (rm_groups cs))"

text \<open>The specification of the aggregation: the total of one manager.\<close>

definition rm_total :: "client list \<Rightarrow> string \<Rightarrow> nat" where
  "rm_total cs r = sum_list (map portfolio_value (filter (\<lambda>c. rm_id c = r) cs))"

subsection \<open>Lemmas\<close>

lemma map_of_add_to_group:
  "map_of (add_to_group g k v) =
     (map_of g)(k \<mapsto> (case map_of g k of None \<Rightarrow> v | Some t \<Rightarrow> t + v))"
  by (induction g k v rule: add_to_group.induct) (auto simp: fun_eq_iff)

lemma keys_add_to_group:
  "map fst (add_to_group g k v) = (if k \<in> fst ` set g then map fst g else map fst g @ [k])"
  by (induction g k v rule: add_to_group.induct) (auto simp: image_iff)

lemma sum_add_to_group:
  "sum_list (map snd (add_to_group g k v)) = sum_list (map snd g) + v"
  by (induction g k v rule: add_to_group.induct) auto

lemma rm_groups_snoc:
  "rm_groups (cs @ [c]) = add_to_group (rm_groups cs) (rm_id c) (portfolio_value c)"
  by (simp add: rm_groups_def)

lemma rm_total_snoc:
  "rm_total (cs @ [c]) r = rm_total cs r + (if rm_id c = r then portfolio_value c else 0)"
  by (simp add: rm_total_def)

lemma rm_groups_Nil [simp]: "rm_groups [] = []"
  by (simp add: rm_groups_def)

lemma rm_total_notin: "r \<notin> rm_id ` set cs \<Longrightarrow> rm_total cs r = 0"
  by (induction cs) (auto simp: rm_total_def)

lemma map_of_rm_groups:
  "map_of (rm_groups cs) r = (if r \<in> rm_id ` set cs then Some (rm_total cs r) else None)"
proof (induction cs rule: rev_induct)
  case Nil
  then show ?case by simp
next
  case (snoc c cs)
  show ?case
  proof (cases "rm_id c = r")
    case True
    with snoc.IH show ?thesis
      by (cases "r \<in> rm_id ` set cs")
        (auto simp: rm_groups_snoc map_of_add_to_group rm_total_snoc rm_total_notin)
  next
    case False
    with snoc.IH show ?thesis
      by (simp add: rm_groups_snoc map_of_add_to_group rm_total_snoc)
  qed
qed

lemma keys_rm_groups: "map fst (rm_groups cs) = rev (remdups (rev (map rm_id cs)))"
proof (induction cs rule: rev_induct)
  case Nil
  then show ?case by simp
next
  case (snoc c cs)
  have "fst ` set (rm_groups cs) = rm_id ` set cs"
    by (metis snoc.IH set_map set_remdups set_rev)
  with snoc.IH show ?case
    by (simp add: rm_groups_snoc keys_add_to_group)
qed

lemma sum_rm_groups: "sum_list (map snd (rm_groups cs)) = sum_list (map portfolio_value cs)"
  by (induction cs rule: rev_induct) (simp_all add: rm_groups_snoc sum_add_to_group)

lemma distinct_keys_rm_groups: "distinct (map fst (rm_groups cs))"
  by (simp add: keys_rm_groups)

lemmas roster_simps = mock_clients_def mk_client_def rm_groups_def risk_rank_def risk_str_def

lemma mset_top_clients_split:
  "mset cs = mset (top_clients n cs) + mset (drop n (py_sorted portfolio_value True cs))"
  by (metis append_take_drop_id mset_append mset_py_sorted top_clients_def)

lemma mset_top_clients_rest:
  "mset cs - mset (top_clients n cs) = mset (drop n (py_sorted portfolio_value True cs))"
  by (subst mset_top_clients_split [of cs n]) simp

subsection \<open>Properties\<close>

text \<open>
  C4. Ranking by portfolio value: the top \<open>n\<close> clients are \<open>min n (length cs)\<close>
  clients of the roster, in descending order of portfolio value, and no client left out
  has a larger portfolio value than any client selected.
\<close>

theorem top_clients_correct:
  "length (top_clients n cs) = min n (length cs) \<and>
   sorted_wrt (\<ge>) (map portfolio_value (top_clients n cs)) \<and>
   mset (top_clients n cs) \<subseteq># mset cs \<and>
   (\<forall>x \<in> set (top_clients n cs). \<forall>y \<in># mset cs - mset (top_clients n cs).
      portfolio_value y \<le> portfolio_value x)"
proof (intro conjI ballI)
  show "length (top_clients n cs) = min n (length cs)"
    by (simp add: top_clients_def)
  show "sorted_wrt (\<ge>) (map portfolio_value (top_clients n cs))"
    using py_sorted_desc [of portfolio_value cs]
    by (metis sorted_wrt_take take_map top_clients_def)
  show "mset (top_clients n cs) \<subseteq># mset cs"
    using mset_top_clients_split [of cs n] by (metis mset_subset_eq_add_left)
next
  fix x y
  assume x: "x \<in> set (top_clients n cs)" and "y \<in># mset cs - mset (top_clients n cs)"
  then have "y \<in> set (drop n (py_sorted portfolio_value True cs))"
    by (simp add: mset_top_clients_rest)
  with x show "portfolio_value y \<le> portfolio_value x"
    unfolding top_clients_def by (rule take_desc_max [OF py_sorted_desc])
qed

theorem top_clients_correct_witness:
  "map portfolio_value (top_clients 3 mock_clients) = [6000000, 5500000, 5000000] \<and>
   mock_clients ! 3 \<in># mset mock_clients - mset (top_clients 3 mock_clients) \<and>
   portfolio_value (mock_clients ! 3) \<le> portfolio_value (last (top_clients 3 mock_clients))"
proof -
  have top: "map portfolio_value (top_clients 3 mock_clients) = [6000000, 5500000, 5000000]"
    by (simp add: roster_simps top_clients_def py_sorted_def)
  have "mock_clients ! 3 \<in> set (drop 3 (py_sorted portfolio_value True mock_clients))"
    by (simp add: roster_simps py_sorted_def)
  then have rest: "mock_clients ! 3 \<in># mset mock_clients - mset (top_clients 3 mock_clients)"
    by (simp add: mset_top_clients_rest)
  have "top_clients 3 mock_clients \<noteq> []"
    using top by auto
  then have "last (top_clients 3 mock_clients) \<in> set (top_clients 3 mock_clients)"
    by simp
  with rest top show ?thesis
    using top_clients_correct [of 3 mock_clients] by blast
qed

text \<open>
  C5. Ties are broken by roster order: among clients with the same portfolio value,
  the ones selected are the first ones of the roster, in roster order.
\<close>

theorem top_clients_ties:
  "\<exists>m. filter (\<lambda>c. portfolio_value c = v) (top_clients n cs)
       = take m (filter (\<lambda>c. portfolio_value c = v) cs)"
  using filter_take_prefix [of "\<lambda>c. portfolio_value c = v" n "py_sorted portfolio_value True cs"]
  by (simp add: top_clients_def py_sorted_stable)

text \<open>
  C6. The aggregation per relationship manager implements its specification: a
  manager's entry is the sum of the portfolio values of exactly the clients assigned to
  that manager, every manager of the roster has one entry, and entries appear in the
  order in which managers first appear in the roster.
\<close>

theorem rm_groups_refines:
  "map_of (rm_groups cs) = (\<lambda>r. if r \<in> rm_id ` set cs then Some (rm_total cs r) else None) \<and>
   map fst (rm_groups cs) = rev (remdups (rev (map rm_id cs)))"
  by (simp add: fun_eq_iff map_of_rm_groups keys_rm_groups)

text \<open>
  C7. Aggregation counts every client exactly once: the totals of all managers add up to
  the sum of all portfolio values.
\<close>

theorem rm_groups_total:
  "sum_list (map snd (rm_groups cs)) = sum_list (map portfolio_value cs)"
  by (rule sum_rm_groups)

end
