(* ===== verification/MockResponder.thy ===== *)
theory MockResponder
  imports Roster
begin

text \<open>
  The mock client responder of \<open>src/backend/agents/mongo_agent.py\<close>:
  \<open>parse_question\<close> (the intent record), \<open>get_mock_response\<close> (the answer from the
  static roster, branch by branch in the code's order), \<open>create_simple_query\<close> (the
  MongoDB filter document it would have sent) and \<open>query_mongo\<close> (the entry point that
  turns an exception into an error answer). The only exception the code can raise is the
  \<open>ValueError\<close> of \<open>int()\<close> on a digit run longer than CPython's limit, so
  \<open>parse_question\<close> and \<open>get_mock_response\<close> return \<open>py_error + _\<close>.
  The glyphs \<open>\<bullet>\<close> (U+2022) and \<open>\<rupee>\<close> (U+20B9) are their UTF-8 bytes.
\<close>

subsection \<open>The intent record\<close>

text \<open>\<open>parsed['sort_by']\<close> holds \<open>None\<close> or one of four field names;
  \<open>parsed['sort_order']\<close> is \<open>1\<close> (ascending) or \<open>-1\<close> (descending).\<close>

datatype sort_field = SortPortfolioValue | SortRmId | SortRiskAppetite | SortName

datatype sort_dir = Asc | Desc

record parsed_query =
  limit :: "nat option"
  sort_by :: "sort_field option"
  sort_order :: sort_dir
  top_n :: bool
  names_only :: bool
  portfolio_focus :: bool
  rm_focus :: bool

definition parsed_init :: parsed_query where
  "parsed_init = \<lparr>limit = None, sort_by = None, sort_order = Asc, top_n = False,
     names_only = False, portfolio_focus = False, rm_focus = False\<rparr>"

text \<open>The blocks of \<open>parse_question\<close>, in the code's order, each on the lower-cased
  question: the limit of a \<open>top N\<close> request, the names-only flag, the portfolio focus,
  the relationship-manager focus, and the sort criterion.\<close>

definition parse_limit :: "string \<Rightarrow> py_error + parsed_query" where
  "parse_limit ql =
     (case search top_n_at ql of
        None \<Rightarrow> Inr parsed_init
      | Some ds \<Rightarrow> (case py_int ds of
          Inl e \<Rightarrow> Inl e
        | Inr n \<Rightarrow> Inr (parsed_init\<lparr>limit := Some n, top_n := True\<rparr>)))"

definition parse_names :: "string \<Rightarrow> parsed_query \<Rightarrow> parsed_query" where
  "parse_names ql p = (if contains ql ''name'' \<or> contains ql ''who'' then p\<lparr>names_only := True\<rparr> else p)"

definition parse_portfolio :: "string \<Rightarrow> parsed_query \<Rightarrow> parsed_query" where
  "parse_portfolio ql p =
     (if contains ql ''portfolio'' \<or> contains ql ''wealth'' \<or> contains ql ''investor''
      then p\<lparr>portfolio_focus := True, sort_by := Some SortPortfolioValue, sort_order := Desc\<rparr>
      else p)"

definition parse_rm :: "string \<Rightarrow> parsed_query \<Rightarrow> parsed_query" where
  "parse_rm ql p =
     (if contains ql ''relationship manager'' \<or> contains ql ''rm''
      then p\<lparr>rm_focus := True, sort_by := Some SortRmId\<rparr> else p)"

definition parse_sort :: "string \<Rightarrow> parsed_query \<Rightarrow> parsed_query" where
  "parse_sort ql p =
     (if contains ql ''high'' \<and> contains ql ''risk''
      then p\<lparr>sort_by := Some SortRiskAppetite, sort_order := Desc\<rparr>
      else if contains ql ''low'' \<and> contains ql ''risk''
      then p\<lparr>sort_by := Some SortRiskAppetite, sort_order := Asc\<rparr>
      else if contains ql ''top'' \<and> sort_by p = None
      then p\<lparr>sort_by := Some SortName\<rparr>
      else p)"

definition parse_question :: "string \<Rightarrow> py_error + parsed_query" where
  "parse_question question =
     (let ql = lower question
      in case parse_limit ql of
           Inl e \<Rightarrow> Inl e
         | Inr p \<Rightarrow> Inr (parse_sort ql (parse_rm ql (parse_portfolio ql (parse_names ql p)))))"

text \<open>The intent record is consistent: a limit is present exactly for a top-N request,
  and the sort key agrees with the flags and the direction set with it.\<close>

definition parsed_wf :: "parsed_query \<Rightarrow> bool" where
  "parsed_wf p \<longleftrightarrow>
     (top_n p \<longleftrightarrow> limit p \<noteq> None) \<and>
     (sort_by p = Some SortPortfolioValue \<longrightarrow> portfolio_focus p \<and> sort_order p = Desc) \<and>
     (sort_by p = Some SortRmId \<longrightarrow> rm_focus p) \<and>
     (sort_by p = Some SortName \<longrightarrow> sort_order p = Asc \<and> \<not> portfolio_focus p \<and> \<not> rm_focus p) \<and>
     (sort_by p = None \<longrightarrow> sort_order p = Asc \<and> \<not> portfolio_focus p \<and> \<not> rm_focus p)"

text \<open>The invariant kept by the blocks before the sort criterion, which never set the
  sort key to the name.\<close>

definition parsed_wf_pre :: "parsed_query \<Rightarrow> bool" where
  "parsed_wf_pre p \<longleftrightarrow>
     (top_n p \<longleftrightarrow> limit p \<noteq> None) \<and>
     (sort_by p = Some SortPortfolioValue \<longrightarrow> portfolio_focus p \<and> sort_order p = Desc) \<and>
     (sort_by p = Some SortRmId \<longrightarrow> rm_focus p) \<and> sort_by p \<noteq> Some SortName \<and>
     (sort_by p = None \<longrightarrow> sort_order p = Asc \<and> \<not> portfolio_focus p \<and> \<not> rm_focus p)"

subsection \<open>Answer text\<close>

definition bullet :: string where
  "bullet = [CHR 0xE2, CHR 0x80, CHR 0xA2, CHR '' '']"

definition rupee :: string where
  "rupee = [CHR 0xE2, CHR 0x82, CHR 0xB9]"

text \<open>\<open>f"\<rupee>{v:,}"\<close>\<close>

definition money :: "nat \<Rightarrow> string" where
  "money v = rupee @ fmt_thousands v"

definition client_summary :: "string \<Rightarrow> client \<Rightarrow> string" where
  "client_summary cid c = ''Client '' @ cid @ '' is '' @ name c @ '' (Risk: ''
     @ risk_str (risk_appetite c) @ '', Portfolio: '' @ money (portfolio_value c) @ '')''"

definition who_is_summary :: "client \<Rightarrow> string" where
  "who_is_summary c = name c @ '' is Client '' @ client_id c @ '' (Risk: ''
     @ risk_str (risk_appetite c) @ '', Portfolio: '' @ money (portfolio_value c) @ '')''"

definition portfolio_line :: "client \<Rightarrow> string" where
  "portfolio_line c = bullet @ name c @ '' (Portfolio: '' @ money (portfolio_value c) @ '')''"

definition rm_total_line :: "string \<times> nat \<Rightarrow> string" where
  "rm_total_line g = bullet @ fst g @ '' (Total Portfolio: '' @ money (snd g) @ '')''"

definition rm_breakup_line :: "string \<times> nat \<Rightarrow> string" where
  "rm_breakup_line g = bullet @ fst g @ '': '' @ money (snd g)"

definition name_line :: "client \<Rightarrow> string" where
  "name_line c = bullet @ name c"

definition risk_line :: "client \<Rightarrow> string" where
  "risk_line c = bullet @ name c @ '' (Risk: '' @ risk_str (risk_appetite c) @ '')''"

definition id_risk_line :: "client \<Rightarrow> string" where
  "id_risk_line c = bullet @ name c @ '' (ID: '' @ client_id c @ '', Risk: ''
     @ risk_str (risk_appetite c) @ '')''"

subsection \<open>The branches of \<open>get_mock_response\<close>\<close>

text \<open>\<open>re.search(r'client\s+([A-Z]\d+)', question_lower)\<close>, then
  \<open>re.search(r'([A-Z]\d+)', question_lower)\<close>; group 1 of the first that matches.\<close>

definition client_id_match :: "string \<Rightarrow> string option" where
  "client_id_match ql =
     (case search client_id_at ql of Some cid \<Rightarrow> Some cid | None \<Rightarrow> search upper_id_at ql)"

text \<open>\<open>parsed_query['limit'] or 5\<close>: a missing limit and a limit of 0 both give 5.\<close>

definition limit_or_default :: "parsed_query \<Rightarrow> nat" where
  "limit_or_default p = (case limit p of Some n \<Rightarrow> if n = 0 then 5 else n | None \<Rightarrow> 5)"

definition apply_filters :: "string \<Rightarrow> client list \<Rightarrow> client list" where
  "apply_filters ql cs =
     (if contains ql ''high'' \<and> contains ql ''risk'' then filter (\<lambda>c. risk_appetite c = High) cs
      else if contains ql ''low'' \<and> contains ql ''risk'' then filter (\<lambda>c. risk_appetite c = Low) cs
      else if contains ql ''medium'' \<and> contains ql ''risk''
        then filter (\<lambda>c. risk_appetite c = Medium) cs
      else if contains ql ''stocks''
        then filter (\<lambda>c. ''Stocks'' \<in> set (investment_preferences c)) cs
      else if contains ql ''real estate'' \<or> contains ql ''property''
        then filter (\<lambda>c. ''Real Estate'' \<in> set (investment_preferences c)) cs
      else cs)"

definition apply_sort :: "parsed_query \<Rightarrow> client list \<Rightarrow> client list" where
  "apply_sort p cs =
     (if sort_by p = Some SortRiskAppetite then
        (if sort_order p = Desc then py_sorted (\<lambda>c. risk_rank (risk_appetite c)) True cs
         else py_sorted (\<lambda>c. risk_rank (risk_appetite c)) False cs)
      else if sort_by p = Some SortPortfolioValue
        then py_sorted portfolio_value (sort_order p = Desc) cs
      else py_sorted name False cs)"

text \<open>\<open>if parsed_query['limit']: filtered = filtered[:limit]\<close>; a limit of 0 is falsy.\<close>

definition apply_limit :: "parsed_query \<Rightarrow> client list \<Rightarrow> client list" where
  "apply_limit p cs = (case limit p of Some n \<Rightarrow> if n = 0 then cs else take n cs | None \<Rightarrow> cs)"

definition found_header :: "client list \<Rightarrow> string" where
  "found_header cs = ''Found '' @ show_nat (length cs) @ '' client(s):''"

definition format_clients :: "parsed_query \<Rightarrow> client list \<Rightarrow> string" where
  "format_clients p cs =
     (if names_only p then found_header cs @ newline @ join newline (map name_line cs)
      else
        (let line = (if top_n p then (if portfolio_focus p then portfolio_line else risk_line)
                     else id_risk_line)
         in found_header cs @ newline @ join newline (map line cs)))"

definition is_top_investor_question :: "string \<Rightarrow> bool" where
  "is_top_investor_question ql \<longleftrightarrow> contains ql ''top'' \<and>
     (contains ql ''portfolio'' \<or> contains ql ''wealth member'' \<or> contains ql ''wealth members''
      \<or> contains ql ''investor'')"

definition is_top_rm_question :: "string \<Rightarrow> bool" where
  "is_top_rm_question ql \<longleftrightarrow> contains ql ''top'' \<and>
     (contains ql ''relationship manager'' \<or> contains ql ''rm'')"

definition is_rm_breakup_question :: "string \<Rightarrow> bool" where
  "is_rm_breakup_question ql \<longleftrightarrow>
     (contains ql ''breakup'' \<or> contains ql ''breakdown'' \<or> contains ql ''group by'') \<and>
     (contains ql ''relationship manager'' \<or> contains ql ''rm'')"

definition get_mock_response :: "string \<Rightarrow> py_error + string" where
  "get_mock_response question =
     (let ql = lower question in
      case parse_question question of Inl e \<Rightarrow> Inl e | Inr p \<Rightarrow> Inr
       (case client_id_match ql of
          Some cid \<Rightarrow>
            (case find (\<lambda>c. client_id c = cid) mock_clients of
               Some c \<Rightarrow> client_summary cid c
             | None \<Rightarrow> ''Client '' @ cid @ '' not found in the database.'')
        | None \<Rightarrow>
            (case (if contains ql ''who is''
                   then find (\<lambda>c. contains ql (lower (name c))) mock_clients else None) of
               Some c \<Rightarrow> who_is_summary c
             | None \<Rightarrow>
                if is_top_investor_question ql then
                  (let lim = limit_or_default p
                   in ''Top '' @ show_nat lim @ '' investors:'' @ newline
                      @ join newline (map portfolio_line (top_clients lim mock_clients)))
                else if is_top_rm_question ql then
                  (let lim = limit_or_default p
                   in ''Top '' @ show_nat lim @ '' relationship managers:'' @ newline
                      @ join newline (map rm_total_line (top_rms lim mock_clients)))
                else if is_rm_breakup_question ql then
                  ''Portfolio value breakup per relationship manager:'' @ newline
                  @ join newline (map rm_breakup_line (rm_groups mock_clients))
                else format_clients p
                  (apply_limit p (apply_sort p (apply_filters ql mock_clients))))))"

subsection \<open>The entry point\<close>

text \<open>The dict \<open>query_mongo\<close> returns; \<open>processing_time\<close> is wall-clock time and
  is left out.\<close>

record mongo_result =
  answer :: string
  query :: string

definition query_mongo :: "string \<Rightarrow> mongo_result" where
  "query_mongo question =
     (case get_mock_response question of
        Inr a \<Rightarrow> \<lparr>answer = a, query = question\<rparr>
      | Inl e \<Rightarrow> \<lparr>answer = ''Error processing query: '' @ py_error_str e, query = question\<rparr>)"

subsection \<open>The unused filter builder\<close>

text \<open>\<open>create_simple_query\<close> returns a MongoDB filter document:
  \<open>{"risk_appetite": r}\<close>, \<open>{"investment_preferences": p}\<close> or \<open>{}\<close>.\<close>

datatype mongo_filter = FilterRisk risk | FilterPref string | FilterAll

definition create_simple_query :: "string \<Rightarrow> mongo_filter" where
  "create_simple_query question =
     (let ql = lower question in
      if contains ql ''high'' \<and> contains ql ''risk'' then FilterRisk High
      else if contains ql ''low'' \<and> contains ql ''risk'' then FilterRisk Low
      else if contains ql ''medium'' \<and> contains ql ''risk'' then FilterRisk Medium
      else if contains ql ''stocks'' then FilterPref ''Stocks''
      else if contains ql ''real estate'' \<or> contains ql ''property'' then FilterPref ''Real Estate''
      else if contains ql ''portfolio'' \<or> contains ql ''wealth'' \<or> contains ql ''investor''
        then FilterAll
      else if contains ql ''relationship manager'' \<or> contains ql ''rm'' then FilterAll
      else FilterAll)"

text \<open>MongoDB's reading of such a document: equality on a scalar field, membership on an
  array field, and the empty document matches everything.\<close>

definition matches_filter :: "mongo_filter \<Rightarrow> client \<Rightarrow> bool" where
  "matches_filter f c = (case f of FilterRisk r \<Rightarrow> risk_appetite c = r
     | FilterPref p \<Rightarrow> p \<in> set (investment_preferences c) | FilterAll \<Rightarrow> True)"

lemmas mock_text_defs = bullet_def rupee_def money_def client_summary_def who_is_summary_def
  portfolio_line_def rm_total_line_def rm_breakup_line_def name_line_def risk_line_def
  id_risk_line_def found_header_def

subsection \<open>Lemmas\<close>

lemmas mock_eval = query_mongo_def get_mock_response_def parse_question_def parse_limit_def
  parse_names_def parse_portfolio_def parse_rm_def parse_sort_def roster_simps
  mock_text_defs str_simps client_id_match_def Let_def parsed_init_def
  is_top_investor_question_def is_top_rm_question_def is_rm_breakup_question_def
  limit_or_default_def top_rms_def top_clients_def format_clients_def apply_filters_def
  apply_sort_def apply_limit_def

text \<open>The question is lower-cased before the patterns \<open>[A-Z]\d+\<close> are searched.\<close>

lemma client_id_match_lower: "client_id_match (lower q) = None"
proof -
  have "\<forall>c \<in> set (lower q). \<not> is_upper c" using set_lower_no_upper by blast
  then have "search client_id_at (lower q) = None" "search upper_id_at (lower q) = None"
    using client_id_at_upper upper_id_at_upper by (auto intro!: search_no_upper)
  then show ?thesis by (simp add: client_id_match_def)
qed

lemma parse_question_error:
  "search top_n_at (lower q) = Some ds \<Longrightarrow> int_max_str_digits < length ds \<Longrightarrow>
   parse_question q = Inl (IntMaxStrDigits (length ds))"
  by (simp add: parse_question_def parse_limit_def py_int_def Let_def)

lemma limit_or_default_pos: "0 < limit_or_default p"
  by (simp add: limit_or_default_def split: option.splits)

lemma mock_names_no_newline: "\<forall>c \<in> set mock_clients. CHR 0x0A \<notin> set (name c)"
  by (simp add: roster_simps)

lemma money_no_newline [simp]: "CHR 0x0A \<notin> set (money v)"
  by (simp add: money_def rupee_def)

lemma portfolio_line_no_newline:
  "CHR 0x0A \<notin> set (name c) \<Longrightarrow> CHR 0x0A \<notin> set (portfolio_line c)"
  by (simp add: portfolio_line_def bullet_def)

lemma mock_clients_not_Nil: "mock_clients \<noteq> []"
  by (simp add: mock_clients_def)

lemma top_clients_mock_not_Nil: "0 < n \<Longrightarrow> top_clients n mock_clients \<noteq> []"
  using mock_clients_not_Nil by (simp add: top_clients_def)

lemma set_top_clients: "set (top_clients n cs) \<subseteq> set cs"
  by (metis set_py_sorted set_take_subset top_clients_def)

text \<open>An answer made of a header line and bullet lines splits back into them.\<close>

lemma split_answer:
  assumes "CHR 0x0A \<notin> set h" "ls \<noteq> []" "\<forall>l \<in> set ls. CHR 0x0A \<notin> set l"
  shows "split_on (CHR 0x0A) (h @ newline @ join newline ls) = h # ls"
  using assms by (simp add: newline_def split_on_append_sep split_on_join)

lemma matches_filter_fun:
  "matches_filter f = (\<lambda>c. case f of FilterRisk r \<Rightarrow> risk_appetite c = r
     | FilterPref p \<Rightarrow> p \<in> set (investment_preferences c) | FilterAll \<Rightarrow> True)"
  by (simp add: fun_eq_iff matches_filter_def)

lemma parse_limit_wf_pre: "parse_limit ql = Inr p \<Longrightarrow> parsed_wf_pre p"
  by (auto simp: parse_limit_def parsed_init_def parsed_wf_pre_def split: option.splits sum.splits)

lemma parse_names_wf_pre: "parsed_wf_pre p \<Longrightarrow> parsed_wf_pre (parse_names ql p)"
  by (simp add: parse_names_def parsed_wf_pre_def)

lemma parse_portfolio_wf_pre: "parsed_wf_pre p \<Longrightarrow> parsed_wf_pre (parse_portfolio ql p)"
  by (simp add: parse_portfolio_def parsed_wf_pre_def)

lemma parse_rm_wf_pre: "parsed_wf_pre p \<Longrightarrow> parsed_wf_pre (parse_rm ql p)"
  by (simp add: parse_rm_def parsed_wf_pre_def)

lemma parse_sort_wf: "parsed_wf_pre p \<Longrightarrow> parsed_wf (parse_sort ql p)"
  by (auto simp: parse_sort_def parsed_wf_pre_def parsed_wf_def)

text \<open>The lines of the top-investor answer, shared by the properties about it.\<close>

lemma top_investor_lines:
  assumes "\<not> contains (lower q) ''who is''"
    and "is_top_investor_question (lower q)"
    and "parse_question q = Inr p"
  shows "split_on (CHR 0x0A) (answer (query_mongo q)) =
           (''Top '' @ show_nat (limit_or_default p) @ '' investors:'')
           # map portfolio_line (top_clients (limit_or_default p) mock_clients)"
proof -
  let ?n = "limit_or_default p"
  let ?ls = "map portfolio_line (top_clients ?n mock_clients)"
  have a: "answer (query_mongo q) = (''Top '' @ show_nat ?n @ '' investors:'') @ newline
             @ join newline ?ls"
    using assms by (simp add: query_mongo_def get_mock_response_def client_id_match_lower Let_def)
  have "?ls \<noteq> []"
    using top_clients_mock_not_Nil [OF limit_or_default_pos] by simp
  moreover have "\<forall>l \<in> set ?ls. CHR 0x0A \<notin> set l"
    using mock_names_no_newline set_top_clients portfolio_line_no_newline by fastforce
  ultimately show ?thesis
    unfolding a by (intro split_answer) simp_all
qed

lemma length_mock_clients: "length mock_clients = 10"
  by (simp add: roster_simps)

subsection \<open>Properties\<close>

text \<open>
  C8. The lookup by client identifier never fires: the code lower-cases the question and
  then searches for an upper-case letter followed by digits, so neither pattern can match
  any question.
\<close>

theorem client_id_branch_dead: "client_id_match (lower q) = None"
  by (rule client_id_match_lower)

text \<open>
  C9. "Who is" questions: when the question contains "who is" and the name of a roster
  client (case-insensitively), the answer is the summary of the first such client of the
  roster, which starts with the client's name and states its risk category.
\<close>

theorem who_is_answer:
  assumes "contains (lower q) ''who is''"
    and "find (\<lambda>c. contains (lower q) (lower (name c))) mock_clients = Some c"
    and "parse_question q = Inr p"
  shows "answer (query_mongo q) = who_is_summary c \<and> c \<in> set mock_clients \<and>
         prefix (name c) (answer (query_mongo q)) \<and>
         contains (answer (query_mongo q)) (risk_str (risk_appetite c))"
proof -
  have a: "answer (query_mongo q) = who_is_summary c"
    using assms by (simp add: query_mongo_def get_mock_response_def client_id_match_lower Let_def)
  have "c \<in> set mock_clients"
    using assms(2) by (metis find_Some_iff nth_mem)
  moreover have "who_is_summary c = (name c @ '' is Client '' @ client_id c @ '' (Risk: '')
      @ risk_str (risk_appetite c) @ '', Portfolio: '' @ money (portfolio_value c) @ '')''"
    by (simp add: who_is_summary_def)
  then have "contains (who_is_summary c) (risk_str (risk_appetite c))"
    by (metis contains_iff_sublist sublist_appendI)
  ultimately show ?thesis
    using a by (simp add: who_is_summary_def)
qed

theorem who_is_answer_witness:
  "answer (query_mongo ''Who is Virat Kohli?'') = who_is_summary (hd mock_clients) \<and>
   prefix ''Virat Kohli'' (answer (query_mongo ''Who is Virat Kohli?''))"
proof -
  have h1: "contains (lower ''Who is Virat Kohli?'') ''who is''"
    and h2: "find (\<lambda>c. contains (lower ''Who is Virat Kohli?'') (lower (name c))) mock_clients
       = Some (hd mock_clients)"
    and h3: "parse_question ''Who is Virat Kohli?'' = Inr (parsed_init\<lparr>names_only := True\<rparr>)"
    by (simp_all add: mock_eval)
  have n: "name (hd mock_clients) = ''Virat Kohli''"
    by (simp add: roster_simps)
  from who_is_answer [OF h1 h2 h3]
  have a: "answer (query_mongo ''Who is Virat Kohli?'') = who_is_summary (hd mock_clients)"
    and b: "prefix (name (hd mock_clients)) (answer (query_mongo ''Who is Virat Kohli?''))"
    by blast+
  from b n have "prefix ''Virat Kohli'' (answer (query_mongo ''Who is Virat Kohli?''))"
    by (simp only:)
  with a show ?thesis by blast
qed

text \<open>
  C10. Top investors: a top-N question about portfolios, wealth members or investors is
  answered with a header line and one bullet line per selected client; the clients are
  the top \<open>N\<close> of the roster by portfolio value (\<open>N\<close> the number asked for, 5 when
  none or 0 is given), so the answer has exactly \<open>min N 10\<close> entries.
\<close>

theorem top_investors_answer:
  assumes "\<not> contains (lower q) ''who is''"
    and "is_top_investor_question (lower q)"
    and "parse_question q = Inr p"
  shows "split_on (CHR 0x0A) (answer (query_mongo q)) =
           (''Top '' @ show_nat (limit_or_default p) @ '' investors:'')
           # map portfolio_line (top_clients (limit_or_default p) mock_clients) \<and>
         length (top_clients (limit_or_default p) mock_clients)
           = min (limit_or_default p) (length mock_clients)"
  using top_investor_lines [OF assms] by (simp add: top_clients_def)

theorem top_investors_answer_witness:
  "split_on (CHR 0x0A) (answer (query_mongo ''Top 3 investors'')) =
     ''Top 3 investors:'' # map portfolio_line (top_clients 3 mock_clients)"
proof -
  have "\<not> contains (lower ''Top 3 investors'') ''who is''"
    "is_top_investor_question (lower ''Top 3 investors'')"
    "parse_question ''Top 3 investors'' = Inr (parsed_init\<lparr>limit := Some 3, top_n := True,
        portfolio_focus := True, sort_by := Some SortPortfolioValue, sort_order := Desc\<rparr>)"
    by (simp_all add: mock_eval)
  then show ?thesis
    using top_investors_answer [of "''Top 3 investors''"] by (simp add: mock_eval)
qed

text \<open>
  C11. The count in the top-investor header: it announces the number asked for, or 5
  when none or 0 (falsy) is given, while the answer lists at most the 10 clients of the
  roster, so a request for more than 10 announces more entries than it lists.
\<close>

theorem top_count_header:
  assumes "\<not> contains (lower q) ''who is''"
    and "is_top_investor_question (lower q)"
    and "parse_question q = Inr p"
  shows "hd (split_on (CHR 0x0A) (answer (query_mongo q))) =
           ''Top '' @ show_nat (case limit p of Some n \<Rightarrow> if n = 0 then 5 else n | None \<Rightarrow> 5)
           @ '' investors:'' \<and>
         length (tl (split_on (CHR 0x0A) (answer (query_mongo q)))) =
           min (case limit p of Some n \<Rightarrow> if n = 0 then 5 else n | None \<Rightarrow> 5) 10"
  using top_investor_lines [OF assms] length_mock_clients
  by (simp add: limit_or_default_def top_clients_def)

theorem top_count_header_witness:
  "hd (split_on (CHR 0x0A) (answer (query_mongo ''top 20 investors''))) = ''Top 20 investors:'' \<and>
   length (tl (split_on (CHR 0x0A) (answer (query_mongo ''top 20 investors'')))) = 10"
proof -
  have "\<not> contains (lower ''top 20 investors'') ''who is''"
    "is_top_investor_question (lower ''top 20 investors'')"
    "parse_question ''top 20 investors'' = Inr (parsed_init\<lparr>limit := Some 20, top_n := True,
        portfolio_focus := True, sort_by := Some SortPortfolioValue, sort_order := Desc\<rparr>)"
    by (simp_all add: mock_eval)
  then show ?thesis
    using top_count_header [of "''top 20 investors''"] by (simp add: str_simps)
qed

text \<open>
  C12. The unused \<open>create_simple_query\<close> agrees with the responder: the MongoDB filter
  document it builds selects, on any client list, exactly the clients the in-memory
  filter of \<open>get_mock_response\<close> keeps.
\<close>

theorem create_simple_query_agrees:
  "filter (matches_filter (create_simple_query q)) cs = apply_filters (lower q) cs"
  by (simp add: matches_filter_fun create_simple_query_def apply_filters_def Let_def)

text \<open>
  C13. The error path of the mock responder: a top-N number with more digits than
  CPython's \<open>int()\<close> accepts raises in \<open>parse_question\<close>, and \<open>query_mongo\<close> turns
  the exception into the answer "Error processing query: ..." instead of propagating it.
\<close>

theorem query_mongo_int_error:
  assumes "search top_n_at (lower q) = Some ds" and "int_max_str_digits < length ds"
  shows "answer (query_mongo q) =
           ''Error processing query: '' @ py_error_str (IntMaxStrDigits (length ds))"
  using parse_question_error [OF assms]
  by (simp add: query_mongo_def get_mock_response_def Let_def)

theorem query_mongo_int_error_witness:
  "answer (query_mongo (''top '' @ replicate 4301 (CHR ''9'') @ '' investors''))
     = ''Error processing query: '' @ py_error_str (IntMaxStrDigits 4301)"
proof -
  have "lower (''top '' @ replicate 4301 (CHR ''9'') @ '' investors'')
      = ''top '' @ replicate 4301 (CHR ''9'') @ '' investors''"
    by (simp add: str_simps)
  moreover have "search top_n_at (''top '' @ replicate 4301 (CHR ''9'') @ '' investors'')
      = Some (replicate 4301 (CHR ''9''))"
    by (simp add: str_simps takeWhile_append)
  ultimately show ?thesis
    using query_mongo_int_error [of "''top '' @ replicate 4301 (CHR ''9'') @ '' investors''"]
    by (simp add: int_max_str_digits_def)
qed

text \<open>
  C14. Keyword matching is by substring: every question that asks for the "top" of
  something "performing" (and is neither a who-is nor a top-investor question) is
  answered with the ranking of relationship managers, because "performing" contains
  "rm".
\<close>

theorem top_performing_ranks_rms:
  assumes "\<not> contains (lower q) ''who is''"
    and "\<not> is_top_investor_question (lower q)"
    and "contains (lower q) ''top''" and "contains (lower q) ''performing''"
    and "parse_question q = Inr p"
  shows "answer (query_mongo q) =
     ''Top '' @ show_nat (limit_or_default p) @ '' relationship managers:'' @ newline
     @ join newline (map rm_total_line (top_rms (limit_or_default p) mock_clients))"
proof -
  have "sublist ''rm'' ''performing''"
    by (simp add: sublist_def) (metis append_Cons append_Nil)
  then have "contains (lower q) ''rm''"
    using assms(4) by (meson contains_iff_sublist sublist_order.order.trans)
  with assms show ?thesis
    by (simp add: query_mongo_def get_mock_response_def client_id_match_lower is_top_rm_question_def
        Let_def)
qed

theorem top_performing_ranks_rms_witness:
  "answer (query_mongo ''Show top performing clients'') =
     ''Top 5 relationship managers:'' @ newline
     @ join newline (map rm_total_line (top_rms 5 mock_clients))"
proof -
  have "\<not> contains (lower ''Show top performing clients'') ''who is''"
    "\<not> is_top_investor_question (lower ''Show top performing clients'')"
    "contains (lower ''Show top performing clients'') ''top''"
    "contains (lower ''Show top performing clients'') ''performing''"
    "parse_question ''Show top performing clients'' =
       Inr (parsed_init\<lparr>rm_focus := True, sort_by := Some SortRmId\<rparr>)"
    by (simp_all add: mock_eval)
  then show ?thesis
    using top_performing_ranks_rms [of "''Show top performing clients''"]
    by (simp add: limit_or_default_def parsed_init_def str_simps)
qed

text \<open>
  C15. Amounts survive formatting: the digits of a rendered amount, read back after the
  rupee sign with the thousands separators removed, give the amount.
\<close>

theorem money_roundtrip:
  "nat_of_digits (filter (\<lambda>c. c \<noteq> CHR '','') (drop (length rupee) (money v))) = v"
  by (simp add: money_def fmt_thousands_drop_commas)

text \<open>
  C34. The intent record of every question that parses is consistent: a limit is present
  exactly for a top-N request, a portfolio-value sort is descending and comes with the
  portfolio focus, a manager sort comes with the manager focus, and the name sort and
  the absence of a sort key are ascending and come with neither focus.
\<close>

theorem parse_question_wf:
  assumes "parse_question q = Inr p"
  shows "parsed_wf p"
proof -
  obtain p1 where "parse_limit (lower q) = Inr p1"
    and p: "p = parse_sort (lower q) (parse_rm (lower q) (parse_portfolio (lower q)
                 (parse_names (lower q) p1)))"
    using assms by (auto simp: parse_question_def Let_def split: sum.splits)
  then show ?thesis
    by (simp add: parse_sort_wf parse_rm_wf_pre parse_portfolio_wf_pre parse_names_wf_pre
        parse_limit_wf_pre)
qed

theorem parse_question_wf_witness:
  "parsed_wf (parsed_init\<lparr>limit := Some 3, top_n := True, portfolio_focus := True,
     sort_by := Some SortPortfolioValue, sort_order := Desc\<rparr>)"
proof -
  have "parse_question ''Top 3 investors'' = Inr (parsed_init\<lparr>limit := Some 3, top_n := True,
     portfolio_focus := True, sort_by := Some SortPortfolioValue, sort_order := Desc\<rparr>)"
    by (simp add: mock_eval)
  then show ?thesis by (rule parse_question_wf)
qed

end
