(* ===== verification/SqlAgent.thy ===== *)
theory SqlAgent
  imports Prelude
begin

text \<open>
  The transaction responder of \<open>src/backend/agents/sql_agent.py\<close>: the class
  \<open>SQLQueryAgent\<close> (\<open>query\<close>, \<open>_parse_question\<close>, \<open>_direct_sql_query\<close>,
  \<open>_generate_sql_query\<close>, \<open>_clean_sql_query\<close>, \<open>_execute_query_with_retry\<close>,
  \<open>_fix_column_names\<close>, \<open>_format_response\<close>, \<open>_format_final_response\<close>) and the
  entry point \<open>query_sql_database\<close>.

  The collaborators are an environment \<open>sql_env\<close>: the language model
  (\<open>self.llm.invoke\<close>), the database (\<open>self.db.run\<close>) and the LangChain agent
  (\<open>self.agent.invoke\<close>, absent when its construction failed), each returning either
  the text of the exception it raised (\<open>Inl\<close>) or its answer (\<open>Inr\<close>); the schema
  text cached by \<open>_init_schema_info\<close>; and the exception, if any, of the constructor.
  A prompt is the tuple of values its f-string interpolates; the fixed template text
  around them is not repeated. Every operation returns its result together with the
  list of external calls it made, in order. The list records the calls the responder's
  own code makes: what the LangChain agent does inside one \<open>AgentInvoke\<close> (its own
  model calls and the statements its tools run, up to its five iterations) and the
  database work of the constructor are not in it. \<open>len\<close> counts code points
  (\<open>py_len\<close>), as Python does.
\<close>

subsection \<open>Collaborators and the call log\<close>

datatype prompt =
    SqlGenPrompt string string string string string
      \<comment> \<open>schema, question, limit, sort column, sort order\<close>
  | FormatPrompt string string string bool bool bool
      \<comment> \<open>question, SQL, result, top-N, names only, amount focus\<close>

datatype ext_call = LlmCall prompt | DbRun string | AgentInvoke string

record sql_env =
  llm_invoke :: "prompt \<Rightarrow> string + string"
  db_run :: "string \<Rightarrow> string + string"
  agent_invoke :: "(string \<Rightarrow> string + string option) option"
  schema_info :: "string option"
  init_error :: "string option"

subsection \<open>The intent record\<close>

datatype sql_order = ASC | DESC

definition sql_order_str :: "sql_order \<Rightarrow> string" where
  "sql_order_str d = (case d of ASC \<Rightarrow> ''ASC'' | DESC \<Rightarrow> ''DESC'')"

record sql_parsed =
  sql_limit :: "nat option"
  sql_sort_by :: "string option"
  sql_sort_order :: sql_order
  sql_top_n :: bool
  sql_names_only :: bool
  amount_focus :: bool

definition sql_parsed_init :: sql_parsed where
  "sql_parsed_init = \<lparr>sql_limit = None, sql_sort_by = None, sql_sort_order = DESC,
     sql_top_n = False, sql_names_only = False, amount_focus = False\<rparr>"

text \<open>The blocks of \<open>_parse_question\<close>, in the code's order, each on the lower-cased
  question: the limit, the names-only flag, the amount focus, the sort order.\<close>

definition sql_parse_limit :: "string \<Rightarrow> py_error + sql_parsed" where
  "sql_parse_limit ql =
     (case search top_n_at ql of
        None \<Rightarrow> Inr sql_parsed_init
      | Some ds \<Rightarrow> (case py_int ds of
          Inl e \<Rightarrow> Inl e
        | Inr n \<Rightarrow> Inr (sql_parsed_init\<lparr>sql_limit := Some n, sql_top_n := True\<rparr>)))"

definition sql_parse_names :: "string \<Rightarrow> sql_parsed \<Rightarrow> sql_parsed" where
  "sql_parse_names ql p = (if contains ql ''name'' \<or> contains ql ''who'' then p\<lparr>sql_names_only := True\<rparr> else p)"

definition sql_parse_amount :: "string \<Rightarrow> sql_parsed \<Rightarrow> sql_parsed" where
  "sql_parse_amount ql p =
     (if contains ql ''amount'' \<or> contains ql ''investment'' \<or> contains ql ''top''
      then p\<lparr>amount_focus := True, sql_sort_by := Some ''amount_invested''\<rparr> else p)"

definition sql_parse_sort :: "string \<Rightarrow> sql_parsed \<Rightarrow> sql_parsed" where
  "sql_parse_sort ql p =
     (if contains ql ''highest'' \<or> contains ql ''top'' then p\<lparr>sql_sort_order := DESC\<rparr>
      else if contains ql ''lowest'' then p\<lparr>sql_sort_order := ASC\<rparr>
      else p)"

definition sql_parse_question :: "string \<Rightarrow> py_error + sql_parsed" where
  "sql_parse_question question =
     (let ql = lower question
      in case sql_parse_limit ql of
           Inl e \<Rightarrow> Inl e
         | Inr p \<Rightarrow> Inr (sql_parse_sort ql (sql_parse_amount ql (sql_parse_names ql p))))"

text \<open>The intent record is consistent: a limit is present exactly for a top-N request, the
  amount focus is the sort by \<open>amount_invested\<close>, which is the only sort column, and a
  top-N request is sorted descending by it.\<close>

definition sql_parsed_wf :: "sql_parsed \<Rightarrow> bool" where
  "sql_parsed_wf p \<longleftrightarrow>
     (sql_top_n p \<longleftrightarrow> sql_limit p \<noteq> None) \<and>
     (amount_focus p \<longleftrightarrow> sql_sort_by p = Some ''amount_invested'') \<and>
     (sql_sort_by p = None \<or> sql_sort_by p = Some ''amount_invested'') \<and>
     (sql_top_n p \<longrightarrow> amount_focus p \<and> sql_sort_order p = DESC)"

subsection \<open>Generating the statement\<close>

text \<open>\<open>re.sub(p + r'\n?', '', s)\<close> for a literal pattern \<open>p\<close>: every occurrence, scanned
  from the left, is removed together with one newline right after it.\<close>

definition drop_newline :: "string \<Rightarrow> string" where
  "drop_newline s = (case s of c # t \<Rightarrow> if c = CHR 0x0A then t else s | [] \<Rightarrow> [])"

function remove_fence :: "string \<Rightarrow> string \<Rightarrow> string" where
  "remove_fence p s =
     (case s of [] \<Rightarrow> []
      | c # cs \<Rightarrow> if p \<noteq> [] \<and> prefix p s then remove_fence p (drop_newline (drop (length p) s))
                 else c # remove_fence p cs)"
  by pat_completeness auto
termination
proof (relation "measure (\<lambda>(p, s). length s)")
  fix p s :: string and c :: char and cs :: string
  assume "s = c # cs" "p \<noteq> [] \<and> prefix p s"
  then have lt: "length (drop (length p) s) < length s"
    by (auto dest: prefix_length_le)
  define t where "t = drop (length p) s"
  have "length (drop_newline t) \<le> length t"
    by (cases t) (simp_all add: drop_newline_def)
  with lt [folded t_def] have "length (drop_newline t) < length s"
    by linarith
  then show "((p, drop_newline (drop (length p) s)), p, s) \<in> measure (\<lambda>(p, s). length s)"
    by (simp add: t_def)
qed auto

declare remove_fence.simps [simp del]

definition fence_sql :: string where
  "fence_sql = ''```sql''"

definition fence :: string where
  "fence = ''```''"

definition clean_sql_query :: "string \<Rightarrow> string" where
  "clean_sql_query sql =
     (let s = strip (remove_fence fence (remove_fence fence_sql sql))
      in if endswith s '';'' then s else s @ '';'')"

text \<open>\<open>parsed_query['limit'] or 'None'\<close> and \<open>parsed_query['sort_by'] or 'None'\<close>;
  \<open>{self.schema_info}\<close> prints \<open>None\<close> when the schema could not be read.\<close>

definition gen_prompt :: "sql_env \<Rightarrow> string \<Rightarrow> sql_parsed \<Rightarrow> prompt" where
  "gen_prompt env question p =
     SqlGenPrompt (case schema_info env of None \<Rightarrow> ''None'' | Some s \<Rightarrow> s) question
       (case sql_limit p of Some n \<Rightarrow> if n = 0 then ''None'' else show_nat n | None \<Rightarrow> ''None'')
       (case sql_sort_by p of Some c \<Rightarrow> c | None \<Rightarrow> ''None'')
       (sql_order_str (sql_sort_order p))"

text \<open>\<open>if parsed_query['limit'] and 'LIMIT' not in sql_query.upper():
  sql_query = sql_query.rstrip(';') + f" LIMIT {limit};"\<close>\<close>

definition enforce_limit :: "sql_parsed \<Rightarrow> string \<Rightarrow> string" where
  "enforce_limit p q =
     (case sql_limit p of
        Some n \<Rightarrow> if n \<noteq> 0 \<and> \<not> contains (upper q) ''LIMIT''
                  then rstrip_char (CHR '';'') q @ '' LIMIT '' @ show_nat n @ '';'' else q
      | None \<Rightarrow> q)"

definition generate_sql_query :: "sql_env \<Rightarrow> string \<Rightarrow> sql_parsed \<Rightarrow> string option \<times> ext_call list" where
  "generate_sql_query env question p =
     (let pr = gen_prompt env question p
      in case llm_invoke env pr of
           Inl _ \<Rightarrow> (None, [LlmCall pr])
         | Inr content \<Rightarrow> (Some (enforce_limit p (clean_sql_query content)), [LlmCall pr]))"

subsection \<open>Running the statement\<close>

definition column_fixes :: "(string \<times> string) list" where
  "column_fixes = [
     (''transactoin_id'', ''transaction_id''),
     (''amount'', ''amount_invested''),
     (''transaction_date'', ''date_''),
     (''date'', ''date_''),
     (''rm'', ''rm_name''),
     (''relationship_manager'', ''rm_name'')]"

definition fix_column_names :: "string \<Rightarrow> string" where
  "fix_column_names sql = foldl (\<lambda>s (wrong, correct). re_sub_word wrong correct s) sql column_fixes"

definition exec_failed :: "string \<Rightarrow> string" where
  "exec_failed e = ''Query execution failed: '' @ e"

definition execute_query_with_retry :: "sql_env \<Rightarrow> string \<Rightarrow> string \<times> ext_call list" where
  "execute_query_with_retry env sql =
     (case db_run env sql of
        Inr r \<Rightarrow> (r, [DbRun sql])
      | Inl e \<Rightarrow>
          (if contains e ''Unknown column'' then
             (let fixed = fix_column_names sql
              in if fixed \<noteq> sql then
                   (case db_run env fixed of
                      Inr r \<Rightarrow> (r, [DbRun sql, DbRun fixed])
                    | Inl _ \<Rightarrow> (exec_failed e, [DbRun sql, DbRun fixed]))
                 else (exec_failed e, [DbRun sql]))
           else (exec_failed e, [DbRun sql])))"

subsection \<open>Answering\<close>

definition format_response ::
  "sql_env \<Rightarrow> string \<Rightarrow> string \<Rightarrow> string \<Rightarrow> sql_parsed \<Rightarrow> string \<times> ext_call list" where
  "format_response env question sql result p =
     (if contains result ''Query execution failed'' then (result, [])
      else
        (let pr = FormatPrompt question sql result (sql_top_n p) (sql_names_only p) (amount_focus p)
         in case llm_invoke env pr of
              Inr content \<Rightarrow> (content, [LlmCall pr])
            | Inl e \<Rightarrow> (''Result: '' @ result @ newline @ ''(Formatting error: '' @ e @ '')'',
                        [LlmCall pr])))"

definition direct_sql_query :: "sql_env \<Rightarrow> string \<Rightarrow> sql_parsed \<Rightarrow> string \<times> ext_call list" where
  "direct_sql_query env question p =
     (case generate_sql_query env question p of
        (None, c1) \<Rightarrow> (''Could not generate SQL query'', c1)
      | (Some sql, c1) \<Rightarrow>
          if sql = [] then (''Could not generate SQL query'', c1)
          else
            (let (result, c2) = execute_query_with_retry env sql;
                 (answer, c3) = format_response env question sql result p
             in (answer, c1 @ c2 @ c3)))"

definition format_final_response :: "string \<Rightarrow> sql_parsed \<Rightarrow> string" where
  "format_final_response response p = (if sql_names_only p then response else response)"

text \<open>\<open>response.get('output', 'No output found')\<close> and the test
  \<open>output and len(output.strip()) > 10 and "Agent stopped" not in output\<close>.\<close>

definition agent_output :: "string option \<Rightarrow> string" where
  "agent_output out = (case out of Some x \<Rightarrow> x | None \<Rightarrow> ''No output found'')"

definition agent_accepts :: "string \<Rightarrow> bool" where
  "agent_accepts out \<longleftrightarrow> out \<noteq> [] \<and> 10 < py_len (strip out) \<and> \<not> contains out ''Agent stopped''"

definition sql_query :: "sql_env \<Rightarrow> string \<Rightarrow> py_error + string \<times> ext_call list" where
  "sql_query env question =
     (if strip question = [] then Inr (''Please provide a valid question.'', [])
      else case sql_parse_question question of
        Inl e \<Rightarrow> Inl e
      | Inr p \<Rightarrow> Inr
          (case agent_invoke env of
             None \<Rightarrow> direct_sql_query env question p
           | Some agent \<Rightarrow>
               (case agent question of
                  Inr out \<Rightarrow>
                    if agent_accepts (agent_output out)
                    then (format_final_response (agent_output out) p, [AgentInvoke question])
                    else (let (a, cs) = direct_sql_query env question p in (a, AgentInvoke question # cs))
                | Inl _ \<Rightarrow>
                    (let (a, cs) = direct_sql_query env question p in (a, AgentInvoke question # cs)))))"

text \<open>\<open>query_sql_database\<close> builds a fresh \<open>SQLQueryAgent\<close>; a constructor failure and
  any exception of \<open>query\<close> become the answer \<open>"Error: ..."\<close>.\<close>

definition query_sql_database :: "sql_env \<Rightarrow> string \<Rightarrow> string \<times> ext_call list" where
  "query_sql_database env question =
     (case init_error env of
        Some e \<Rightarrow> (''Error: Failed to initialize SQL agent: '' @ e, [])
      | None \<Rightarrow> (case sql_query env question of
                   Inl e \<Rightarrow> (''Error: '' @ py_error_str e, [])
                 | Inr r \<Rightarrow> r))"

subsection \<open>Lemmas\<close>

lemma remove_fence_Cons:
  "remove_fence p (c # cs) =
     (if p \<noteq> [] \<and> prefix p (c # cs) then remove_fence p (drop_newline (drop (length p) (c # cs)))
      else c # remove_fence p cs)"
  by (subst remove_fence.simps) simp

lemma remove_fence_Nil [simp]: "remove_fence p [] = []"
  by (subst remove_fence.simps) simp

lemma remove_fence_hd:
  "remove_fence fence s = CHR ''`'' # t \<Longrightarrow> \<exists>u. s = CHR ''`'' # u"
proof (cases s)
  case (Cons c cs)
  assume r: "remove_fence fence s = CHR ''`'' # t"
  show ?thesis
  proof (cases "prefix fence s")
    case True
    then show ?thesis using Cons by (simp add: fence_def)
  next
    case False
    with Cons have "remove_fence fence s = c # remove_fence fence cs"
      by (simp add: remove_fence_Cons)
    with r Cons show ?thesis by simp
  qed
qed simp

lemma remove_fence_hd2:
  "remove_fence fence s = CHR ''`'' # CHR ''`'' # t \<Longrightarrow> \<exists>u. s = CHR ''`'' # CHR ''`'' # u"
proof (cases s)
  case (Cons c cs)
  assume r: "remove_fence fence s = CHR ''`'' # CHR ''`'' # t"
  show ?thesis
  proof (cases "prefix fence s")
    case True
    then show ?thesis using Cons by (auto simp: fence_def prefix_def)
  next
    case False
    with Cons have "remove_fence fence s = c # remove_fence fence cs"
      by (simp add: remove_fence_Cons)
    with r have "c = CHR ''`''" "remove_fence fence cs = CHR ''`'' # t"
      by simp_all
    with Cons show ?thesis using remove_fence_hd by blast
  qed
qed simp

lemma remove_fence_no_fence_aux: "p = fence \<Longrightarrow> \<not> sublist p (remove_fence p s)"
proof (induction p s rule: remove_fence.induct)
  case (1 p s)
  then have p: "p = fence" by simp
  have "\<not> sublist fence (remove_fence fence s)"
  proof (cases s)
    case Nil
    then show ?thesis by (simp add: fence_def)
  next
    case (Cons c cs)
    show ?thesis
    proof (cases "prefix fence s")
      case True
      have ne: "fence \<noteq> []" by (simp add: fence_def)
      with True Cons have "remove_fence fence s
          = remove_fence fence (drop_newline (drop (length fence) s))"
        by (simp add: remove_fence_Cons)
      moreover have "\<not> sublist fence (remove_fence fence (drop_newline (drop (length fence) s)))"
        using "1.IH"(1) [OF Cons] True ne p by simp
      ultimately show ?thesis by simp
    next
      case False
      then have r: "remove_fence fence s = c # remove_fence fence cs"
        using Cons by (simp add: remove_fence_Cons)
      have "\<not> prefix fence (c # remove_fence fence cs)"
      proof
        assume "prefix fence (c # remove_fence fence cs)"
        then obtain t where "c = CHR ''`''" "remove_fence fence cs = CHR ''`'' # CHR ''`'' # t"
          by (auto simp: fence_def prefix_def)
        then obtain u where "s = CHR ''`'' # CHR ''`'' # CHR ''`'' # u"
          using remove_fence_hd2 Cons by blast
        with False show False by (simp add: fence_def)
      qed
      moreover have "\<not> sublist fence (remove_fence fence cs)"
        using "1.IH"(2) Cons False p by (simp add: fence_def)
      ultimately show ?thesis
        by (simp add: r sublist_Cons_right)
    qed
  qed
  with p show ?case by simp
qed

lemma remove_fence_no_fence: "\<not> sublist fence (remove_fence fence s)"
  by (rule remove_fence_no_fence_aux) simp

lemma sublist_strip: "sublist (strip s) s"
proof -
  have "prefix (rev (dropWhile is_space (rev (dropWhile is_space s)))) (dropWhile is_space s)"
    using suffix_dropWhile [of is_space "rev (dropWhile is_space s)"]
    by (metis suffix_to_prefix rev_rev_ident)
  then show ?thesis
    unfolding strip_def
    by (meson prefix_imp_sublist suffix_dropWhile suffix_imp_sublist sublist_order.order.trans)
qed

lemma generate_call_log:
  "snd (generate_sql_query env question p) = [LlmCall (gen_prompt env question p)]"
  by (simp add: generate_sql_query_def Let_def split: sum.split)

lemma fix_column_names_free:
  "\<forall>(w, r) \<in> set column_fixes. word_free w None q \<Longrightarrow> fix_column_names q = q"
  by (simp add: fix_column_names_def column_fixes_def re_sub_word_def sub_word_free)

lemma sql_parse_limit_wf:
  "sql_parse_limit ql = Inr p \<Longrightarrow>
     (sql_top_n p \<longleftrightarrow> sql_limit p \<noteq> None) \<and> (sql_top_n p \<longrightarrow> contains ql ''top'') \<and>
     sql_sort_by p = None \<and> \<not> amount_focus p"
  by (auto simp: sql_parse_limit_def sql_parsed_init_def dest: search_top_n_contains
      split: option.splits sum.splits)

lemma sql_parse_flags_wf:
  assumes "(sql_top_n p \<longleftrightarrow> sql_limit p \<noteq> None) \<and> (sql_top_n p \<longrightarrow> contains ql ''top'') \<and>
     sql_sort_by p = None \<and> \<not> amount_focus p"
  shows "sql_parsed_wf (sql_parse_sort ql (sql_parse_amount ql (sql_parse_names ql p)))"
  using assms
  by (auto simp: sql_parse_sort_def sql_parse_amount_def sql_parse_names_def sql_parsed_wf_def)

subsection \<open>Properties\<close>

text \<open>
  C16. At most one retry: running a statement calls the database once, or twice when
  the first run failed with an "Unknown column" error and the column corrections changed
  the statement; the second run is of the corrected statement.
\<close>

theorem retry_at_most_once:
  "snd (execute_query_with_retry env q) = [DbRun q] \<or>
   (snd (execute_query_with_retry env q) = [DbRun q, DbRun (fix_column_names q)] \<and>
    (\<exists>e. db_run env q = Inl e \<and> contains e ''Unknown column'') \<and> fix_column_names q \<noteq> q)"
  by (auto simp: execute_query_with_retry_def Let_def split: sum.splits)

text \<open>
  C17. When the corrected statement fails too, the answer is the literal failure
  message with the error of the first run, not of the retry.
\<close>

theorem retry_failure_reports_first_error:
  assumes "db_run env q = Inl e" and "contains e ''Unknown column''"
    and "fix_column_names q \<noteq> q" and "db_run env (fix_column_names q) = Inl e'"
  shows "execute_query_with_retry env q = (exec_failed e, [DbRun q, DbRun (fix_column_names q)])"
  using assms by (simp add: execute_query_with_retry_def Let_def)

theorem retry_failure_reports_first_error_witness:
  "execute_query_with_retry
     \<lparr>llm_invoke = \<lambda>_. Inl [],
      db_run = \<lambda>s. if s = ''SELECT amount FROM transactions;'' then Inl ''Unknown column amount''
                   else Inl ''Lost connection'',
      agent_invoke = None, schema_info = None, init_error = None\<rparr>
     ''SELECT amount FROM transactions;''
   = (exec_failed ''Unknown column amount'',
      [DbRun ''SELECT amount FROM transactions;'', DbRun ''SELECT amount_invested FROM transactions;''])"
proof -
  have f: "fix_column_names ''SELECT amount FROM transactions;''
      = ''SELECT amount_invested FROM transactions;''"
    by code_simp
  have c: "contains ''Unknown column amount'' ''Unknown column''"
    by code_simp
  show ?thesis
    using retry_failure_reports_first_error [where env = "\<lparr>llm_invoke = \<lambda>_. Inl [],
      db_run = \<lambda>s. if s = ''SELECT amount FROM transactions;'' then Inl ''Unknown column amount''
                   else Inl ''Lost connection'',
      agent_invoke = None, schema_info = None, init_error = None\<rparr>"
      and q = "''SELECT amount FROM transactions;''" and e = "''Unknown column amount''"
      and e' = "''Lost connection''"] f c
    by simp
qed

text \<open>
  C18. The fallback path's calls, in order: \<open>_direct_sql_query\<close> first asks the
  language model for a statement with the prompt built from the schema, the question and
  the parsed intent; if it gets one, it runs exactly that statement, then at most its
  corrected form, and then asks the model at most once more, to phrase the result of
  that statement. This path calls nothing else.
\<close>

theorem direct_sql_query_call_log:
  "snd (direct_sql_query env q p) = [LlmCall (gen_prompt env q p)] \<or>
   (\<exists>sql r c2 c3. fst (generate_sql_query env q p) = Some sql \<and>
      snd (direct_sql_query env q p) = LlmCall (gen_prompt env q p) # c2 @ c3 \<and>
      (c2 = [DbRun sql] \<or> c2 = [DbRun sql, DbRun (fix_column_names sql)]) \<and>
      (c3 = [] \<or> c3 = [LlmCall (FormatPrompt q sql r (sql_top_n p) (sql_names_only p) (amount_focus p))]))"
proof -
  obtain so where g: "generate_sql_query env q p = (so, [LlmCall (gen_prompt env q p)])"
    using generate_call_log [of env q p] by (metis prod.collapse)
  show ?thesis
  proof (cases "so = None \<or> so = Some []")
    case True
    then show ?thesis using g by (auto simp: direct_sql_query_def)
  next
    case False
    then obtain sql where so: "so = Some sql" "sql \<noteq> []" by auto
    obtain r c2 where e: "execute_query_with_retry env sql = (r, c2)" by fastforce
    obtain a c3 where f: "format_response env q sql r p = (a, c3)" by fastforce
    have "direct_sql_query env q p = (a, LlmCall (gen_prompt env q p) # c2 @ c3)"
      using g so e f by (simp add: direct_sql_query_def)
    moreover have "c2 = [DbRun sql] \<or> c2 = [DbRun sql, DbRun (fix_column_names sql)]"
      using e by (auto simp: execute_query_with_retry_def Let_def split: sum.splits if_splits)
    moreover have "c3 = [] \<or>
        c3 = [LlmCall (FormatPrompt q sql r (sql_top_n p) (sql_names_only p) (amount_focus p))]"
      using f by (auto simp: format_response_def Let_def split: sum.splits if_splits)
    ultimately show ?thesis using g so by auto
  qed
qed

text \<open>
  C19. Cleaning the model's reply: the statement has no code fence left and ends with
  a semicolon.
\<close>

theorem clean_sql_query_no_fence: "\<not> contains (clean_sql_query s) fence \<and> endswith (clean_sql_query s) '';''"
proof -
  let ?t = "strip (remove_fence fence (remove_fence fence_sql s))"
  have t: "\<not> sublist fence ?t"
    using remove_fence_no_fence sublist_strip sublist_order.order.trans by blast
  have "\<not> sublist fence (?t @ '';'')"
    using t by (auto simp: sublist_snoc fence_def)
  with t show ?thesis
    by (simp add: clean_sql_query_def Let_def contains_iff_sublist endswith_def)
qed

text \<open>
  C20. A requested limit reaches the statement: when the question asks for the top
  \<open>n\<close> (\<open>n \<noteq> 0\<close>), the generated statement contains LIMIT (up to case).
\<close>

theorem limit_enforced:
  assumes "generate_sql_query env q p = (Some s, cs)" "sql_limit p = Some n" "n \<noteq> 0"
  shows "contains (upper s) ''LIMIT''"
proof -
  have s: "s = enforce_limit p (clean_sql_query (projr (llm_invoke env (gen_prompt env q p))))"
    using assms(1) by (auto simp: generate_sql_query_def Let_def split: sum.splits)
  let ?c = "clean_sql_query (projr (llm_invoke env (gen_prompt env q p)))"
  show ?thesis
  proof (cases "contains (upper ?c) ''LIMIT''")
    case True
    then show ?thesis using s assms by (simp add: enforce_limit_def)
  next
    case False
    then have "upper s = upper (rstrip_char (CHR '';'') ?c) @ '' LIMIT '' @ upper (show_nat n @ '';'')"
      using s assms by (simp add: enforce_limit_def upper_def upper_char_def is_lower_def)
    moreover have "sublist ''LIMIT'' (A @ '' LIMIT '' @ B)" for A B :: string
    proof -
      have "A @ '' LIMIT '' @ B = (A @ '' '') @ ''LIMIT'' @ ('' '' @ B)" by simp
      then show ?thesis by (metis sublist_appendI)
    qed
    ultimately show ?thesis
      by (simp only: contains_iff_sublist)
  qed
qed

theorem limit_enforced_witness:
  "contains (upper (the (fst (generate_sql_query
     \<lparr>llm_invoke = \<lambda>_. Inr ''SELECT * FROM transactions'', db_run = \<lambda>_. Inr [],
      agent_invoke = None, schema_info = None, init_error = None\<rparr>
     ''top 3 investments'' (sql_parsed_init\<lparr>sql_limit := Some 3\<rparr>))))) ''LIMIT''"
proof -
  let ?env = "\<lparr>llm_invoke = \<lambda>_. Inr ''SELECT * FROM transactions'', db_run = \<lambda>_. Inr [],
      agent_invoke = None, schema_info = None, init_error = None\<rparr>"
  let ?p = "sql_parsed_init\<lparr>sql_limit := Some 3\<rparr>"
  obtain s cs where g: "generate_sql_query ?env ''top 3 investments'' ?p = (Some s, cs)"
    by (simp add: generate_sql_query_def Let_def)
  have "contains (upper s) ''LIMIT''"
    using limit_enforced [OF g] by (simp add: sql_parsed_init_def)
  with g show ?thesis by simp
qed

text \<open>
  C21. The agent tier first: when the agent is available and returns an output that is
  non-empty, longer than 10 characters after stripping and not "Agent stopped", that
  output is the answer and no statement is generated or run.
\<close>

theorem agent_answer_accepted:
  assumes "init_error env = None" "strip q \<noteq> []" "sql_parse_question q = Inr p"
    "agent_invoke env = Some ag" "ag q = Inr out" "agent_accepts (agent_output out)"
  shows "query_sql_database env q = (agent_output out, [AgentInvoke q])"
  using assms by (simp add: query_sql_database_def sql_query_def format_final_response_def)

theorem agent_answer_accepted_witness:
  "query_sql_database
     \<lparr>llm_invoke = \<lambda>_. Inl [], db_run = \<lambda>_. Inl [],
      agent_invoke = Some (\<lambda>_. Inr (Some ''Total invested is 1,000''))
      , schema_info = None, init_error = None\<rparr> ''total amount invested''
   = (''Total invested is 1,000'', [AgentInvoke ''total amount invested''])"
proof -
  have "strip ''total amount invested'' \<noteq> []" "agent_accepts (agent_output (Some ''Total invested is 1,000''))"
    "sql_parse_question ''total amount invested''
       = Inr (sql_parsed_init\<lparr>amount_focus := True, sql_sort_by := Some ''amount_invested'',
                               sql_sort_order := DESC\<rparr>)"
    by code_simp+
  then show ?thesis
    using agent_answer_accepted [where env = "\<lparr>llm_invoke = \<lambda>_. Inl [], db_run = \<lambda>_. Inl [],
      agent_invoke = Some (\<lambda>_. Inr (Some ''Total invested is 1,000'')),
      schema_info = None, init_error = None\<rparr>" and q = "''total amount invested''"]
    by (simp add: agent_output_def)
qed

text \<open>
  C22. No fabricated data: when the generated statement fails with an error that is not
  an unknown column, the answer is "Query execution failed: " with that error, and the
  language model is not asked to phrase it.
\<close>

theorem failed_query_not_formatted:
  assumes "generate_sql_query env q p = (Some s, c1)" "s \<noteq> []"
    "db_run env s = Inl e" "\<not> contains e ''Unknown column''"
  shows "direct_sql_query env q p = (exec_failed e, c1 @ [DbRun s])"
proof -
  have "contains (exec_failed e) ''Query execution failed''"
    by (simp add: exec_failed_def contains_iff_sublist)
  then show ?thesis using assms
    by (simp add: direct_sql_query_def execute_query_with_retry_def format_response_def)
qed

theorem failed_query_not_formatted_witness:
  "direct_sql_query
     \<lparr>llm_invoke = \<lambda>_. Inr ''SELECT 1;'', db_run = \<lambda>_. Inl ''Lost connection'',
      agent_invoke = None, schema_info = None, init_error = None\<rparr> ''total'' sql_parsed_init
   = (exec_failed ''Lost connection'',
      [LlmCall (SqlGenPrompt ''None'' ''total'' ''None'' ''None'' ''DESC''), DbRun ''SELECT 1;''])"
proof -
  let ?env = "\<lparr>llm_invoke = \<lambda>_. Inr ''SELECT 1;'', db_run = \<lambda>_. Inl ''Lost connection'',
      agent_invoke = None, schema_info = None, init_error = None\<rparr>"
  have g: "generate_sql_query ?env ''total'' sql_parsed_init
      = (Some ''SELECT 1;'', [LlmCall (SqlGenPrompt ''None'' ''total'' ''None'' ''None'' ''DESC'')])"
    by code_simp
  have "\<not> contains ''Lost connection'' ''Unknown column''"
    by code_simp
  then show ?thesis
    using failed_query_not_formatted [OF g] by simp
qed

text \<open>
  C23. A statement that uses no misspelled column name as a whole word is left alone by
  the corrections, so it is run exactly once even when it fails.
\<close>

theorem clean_statement_run_once:
  assumes "\<forall>(w, r) \<in> set column_fixes. word_free w None q"
  shows "fix_column_names q = q \<and> snd (execute_query_with_retry env q) = [DbRun q]"
proof -
  have "fix_column_names q = q" using assms by (rule fix_column_names_free)
  then show ?thesis
    by (simp add: execute_query_with_retry_def Let_def split: sum.splits)
qed

theorem clean_statement_run_once_witness:
  "snd (execute_query_with_retry
     \<lparr>llm_invoke = \<lambda>_. Inl [], db_run = \<lambda>_. Inl ''Unknown column x'',
      agent_invoke = None, schema_info = None, init_error = None\<rparr>
     ''SELECT amount_invested FROM transactions;'')
   = [DbRun ''SELECT amount_invested FROM transactions;'']"
proof -
  have "\<forall>(w, r) \<in> set column_fixes. word_free w None ''SELECT amount_invested FROM transactions;''"
    by code_simp
  then show ?thesis using clean_statement_run_once by blast
qed

text \<open>
  C24. Errors become answers: when \<open>int()\<close> refuses the top-N number, the exception
  leaves \<open>query\<close> and \<open>query_sql_database\<close> returns "Error: ..." before any call to a
  collaborator.
\<close>

theorem sql_int_error_answer:
  assumes "init_error env = None" and "strip q \<noteq> []"
    and "search top_n_at (lower q) = Some ds" and "int_max_str_digits < length ds"
  shows "query_sql_database env q = (''Error: '' @ py_error_str (IntMaxStrDigits (length ds)), [])"
  using assms by (simp add: query_sql_database_def sql_query_def sql_parse_question_def sql_parse_limit_def py_int_def)

theorem sql_int_error_answer_witness:
  "query_sql_database
     \<lparr>llm_invoke = \<lambda>_. Inl [], db_run = \<lambda>_. Inl [], agent_invoke = None,
      schema_info = None, init_error = None\<rparr> (''top '' @ replicate 4301 (CHR ''9''))
   = (''Error: '' @ py_error_str (IntMaxStrDigits 4301), [])"
proof -
  have "lower (''top '' @ replicate 4301 (CHR ''9'')) = ''top '' @ replicate 4301 (CHR ''9'')"
    by (simp add: str_simps)
  moreover have "search top_n_at (''top '' @ replicate 4301 (CHR ''9''))
      = Some (replicate 4301 (CHR ''9''))"
    by (simp add: str_simps)
  moreover have "strip (''top '' @ replicate 4301 (CHR ''9'')) \<noteq> []"
    by (simp add: str_simps)
  ultimately show ?thesis
    using sql_int_error_answer [where env = "\<lparr>llm_invoke = \<lambda>_. Inl [], db_run = \<lambda>_. Inl [],
      agent_invoke = None, schema_info = None, init_error = None\<rparr>"
      and q = "''top '' @ replicate 4301 (CHR ''9'')"]
    by (simp add: int_max_str_digits_def)
qed

text \<open>
  C33. The transaction responder's intent record of every question that parses is
  consistent: a limit is present exactly for a top-N request, the amount focus is the
  sort by \<open>amount_invested\<close>, and a top-N request is always sorted descending by it.
\<close>

theorem sql_parse_question_wf:
  assumes "sql_parse_question q = Inr p"
  shows "sql_parsed_wf p"
proof -
  obtain p1 where "sql_parse_limit (lower q) = Inr p1"
    and "p = sql_parse_sort (lower q) (sql_parse_amount (lower q) (sql_parse_names (lower q) p1))"
    using assms by (auto simp: sql_parse_question_def Let_def split: sum.splits)
  then show ?thesis
    using sql_parse_flags_wf sql_parse_limit_wf by blast
qed

theorem sql_parse_question_wf_witness:
  "sql_parsed_wf (sql_parsed_init\<lparr>sql_limit := Some 5, sql_top_n := True, amount_focus := True,
     sql_sort_by := Some ''amount_invested'', sql_sort_order := DESC\<rparr>)"
proof -
  have "sql_parse_question ''top 5 lowest investments''
     = Inr (sql_parsed_init\<lparr>sql_limit := Some 5, sql_top_n := True, amount_focus := True,
                             sql_sort_by := Some ''amount_invested'', sql_sort_order := DESC\<rparr>)"
    by code_simp
  then show ?thesis by (rule sql_parse_question_wf)
qed

end
