(* ===== verification/Config.thy ===== *)
theory Config
  imports SqlAgent
begin

text \<open>
  Configuration and construction of the backend's connections: \<open>connect_mysql\<close> and
  \<open>get_mysql_connection\<close> (\<open>src/backend/db/mysql_conn.py\<close>), \<open>get_mongo_collection\<close>
  (\<open>src/backend/db/mongo_conn.py\<close>), the checks that \<open>sql_agent.py\<close> runs when it is
  imported, and the constructor of \<open>SQLQueryAgent\<close> with \<open>_init_schema_info\<close> and
  \<open>_init_agent\<close>. The process environment after \<open>load_dotenv()\<close> is a partial map from
  variable names to values; the drivers and LangChain constructors are collaborators that
  return their object or raise (\<open>Inl\<close> the message).
\<close>

type_synonym os_env = "string \<Rightarrow> string option"

text \<open>\<open>os.getenv(k, default)\<close>: the default only when the variable is unset; a variable
  set to the empty string gives the empty string.\<close>

definition getenv :: "os_env \<Rightarrow> string \<Rightarrow> string \<Rightarrow> string" where
  "getenv env k d = (case env k of Some v \<Rightarrow> v | None \<Rightarrow> d)"

subsection \<open>MySQL connection (\<open>db/mysql_conn.py\<close>)\<close>

text \<open>The keyword arguments of \<open>mysql.connector.connect(...)\<close>.\<close>

record mysql_config =
  cfg_host :: string
  cfg_user :: string
  cfg_password :: string
  cfg_database :: string
  cfg_port :: int
  cfg_autocommit :: bool
  cfg_connection_timeout :: nat
  cfg_pool_size :: nat
  cfg_pool_name :: string

text \<open>What the driver raises: a \<open>mysql.connector.Error\<close> or any other exception.\<close>

datatype connector_error = MySQLError string | OtherError string

definition mysql_config_of :: "os_env \<Rightarrow> int \<Rightarrow> mysql_config" where
  "mysql_config_of env port =
     \<lparr>cfg_host = getenv env ''MYSQL_HOST'' ''localhost'', cfg_user = getenv env ''MYSQL_USER'' ''root'',
      cfg_password = getenv env ''MYSQL_PASSWORD'' ''Dip@1234'',
      cfg_database = getenv env ''MYSQL_DATABASE'' ''valuefy'', cfg_port = port,
      cfg_autocommit = True, cfg_connection_timeout = 10, cfg_pool_size = 5,
      cfg_pool_name = ''valuefy_pool''\<rparr>"

text \<open>The two \<open>except\<close> clauses: a driver error and any other exception are re-raised
  with different prefixes. The \<open>ValueError\<close> of \<open>int()\<close> on the port is raised inside
  the same \<open>try\<close> and takes the second clause.\<close>

definition connect_mysql ::
  "os_env \<Rightarrow> (mysql_config \<Rightarrow> connector_error + 'c) \<Rightarrow> string + 'c" where
  "connect_mysql env connect =
     (case py_int_str (getenv env ''MYSQL_PORT'' ''3306'') of
        Inl e \<Rightarrow> Inl (''MySQL connection failed: '' @ py_error_str e)
      | Inr port \<Rightarrow>
          (case connect (mysql_config_of env port) of
             Inr conn \<Rightarrow> Inr conn
           | Inl (MySQLError m) \<Rightarrow> Inl (''Failed to connect to MySQL: '' @ m)
           | Inl (OtherError m) \<Rightarrow> Inl (''MySQL connection failed: '' @ m)))"

text \<open>\<open>get_mysql_connection\<close> logs and re-raises, so it returns what \<open>connect_mysql\<close>
  returns.\<close>

definition get_mysql_connection ::
  "os_env \<Rightarrow> (mysql_config \<Rightarrow> connector_error + 'c) \<Rightarrow> string + 'c" where
  "get_mysql_connection env connect =
     (case connect_mysql env connect of Inl e \<Rightarrow> Inl e | Inr conn \<Rightarrow> Inr conn)"

subsection \<open>MongoDB collection (\<open>db/mongo_conn.py\<close>)\<close>

text \<open>The three driver operations: \<open>MongoClient(uri)\<close>, which parses the URI, and the
  subscripts \<open>client[name]\<close> and \<open>db[name]\<close>, which check the names; each may raise.
  The client connects lazily, so no server is contacted here.\<close>

record ('c, 'd, 'h) mongo_driver =
  mongo_client :: "string \<Rightarrow> string + 'c"
  client_database :: "'c \<Rightarrow> string \<Rightarrow> string + 'd"
  database_collection :: "'d \<Rightarrow> string \<Rightarrow> string + 'h"

definition get_mongo_collection :: "os_env \<Rightarrow> ('c, 'd, 'h) mongo_driver \<Rightarrow> string + 'h" where
  "get_mongo_collection env drv =
     (let uri = getenv env ''MONGODB_URI'' ''mongodb://localhost:27017/'';
          db_name = getenv env ''MONGODB_DATABASE'' ''valuefy'';
          collection_name = getenv env ''MONGODB_COLLECTION'' ''clients''
      in case mongo_client drv uri of
           Inl e \<Rightarrow> Inl e
         | Inr client \<Rightarrow>
             (case client_database drv client db_name of
                Inl e \<Rightarrow> Inl e
              | Inr db \<Rightarrow> database_collection drv db collection_name))"

subsection \<open>The SQL agent module and its constructor (\<open>agents/sql_agent.py\<close>)\<close>

text \<open>Importing \<open>sql_agent.py\<close> raises \<open>ValueError\<close> unless both variables are set and
  non-empty; otherwise the module keeps their values.\<close>

definition sql_agent_module_init :: "os_env \<Rightarrow> string + string \<times> string" where
  "sql_agent_module_init env =
     (if \<not> configured (env ''OPENAI_API_KEY'') then Inl ''OPENAI_API_KEY missing in .env''
      else if \<not> configured (env ''MYSQL_URI'') then Inl ''MYSQL_URI missing in .env''
      else Inr (the (env ''OPENAI_API_KEY''), the (env ''MYSQL_URI'')))"

text \<open>The collaborators the constructor builds from: \<open>SQLDatabase.from_uri\<close>, the
  \<open>ChatOpenAI\<close> constructor, \<open>db.get_table_info()\<close>, the construction of the
  toolkit, prompt, ReAct agent and executor in \<open>_init_agent\<close> (given the schema text it
  puts into the prompt), and the model and database calls of the built objects.\<close>

record sql_backend =
  from_uri :: "string \<Rightarrow> string + unit"
  chat_model :: "string + unit"
  get_table_info :: "string + string"
  make_agent :: "string \<Rightarrow> string + (string \<Rightarrow> string + string option)"
  backend_llm :: "prompt \<Rightarrow> string + string"
  backend_run :: "string \<Rightarrow> string + string"

text \<open>\<open>self.schema_info or "Schema not available"\<close> in \<open>_init_agent\<close>.\<close>

definition agent_schema :: "string option \<Rightarrow> string" where
  "agent_schema si = (case si of Some s \<Rightarrow> if s = [] then ''Schema not available'' else s
                                | None \<Rightarrow> ''Schema not available'')"

text \<open>
  \<open>SQLQueryAgent(...)\<close>: a failure of \<open>from_uri\<close> or of the model's constructor is the
  constructor's exception; a failure to read the schema leaves \<open>schema_info = None\<close>,
  and a failure to build the agent leaves \<open>agent = None\<close>. When the constructor fails
  the object does not exist and \<open>query_sql_database\<close> never uses its other fields.
\<close>

definition init_sql_agent :: "string \<Rightarrow> sql_backend \<Rightarrow> sql_env" where
  "init_sql_agent uri b =
     (let err = (case from_uri b uri of
                   Inl e \<Rightarrow> Some e
                 | Inr _ \<Rightarrow> (case chat_model b of Inl e \<Rightarrow> Some e | Inr _ \<Rightarrow> None));
          si = (case get_table_info b of Inl _ \<Rightarrow> None | Inr s \<Rightarrow> Some s);
          agent = (case make_agent b (agent_schema si) of Inl _ \<Rightarrow> None | Inr a \<Rightarrow> Some a)
      in \<lparr>llm_invoke = backend_llm b, db_run = backend_run b, agent_invoke = agent,
          schema_info = si, init_error = err\<rparr>)"

subsection \<open>Properties\<close>

text \<open>
  C29. The port reaches the driver as the number written in \<open>MYSQL_PORT\<close>: for the
  decimal text of any number of at most 4300 digits the driver is called with that port,
  and a minus sign gives the negative port, which the code passes on unchecked.
\<close>

theorem connect_mysql_port_roundtrip:
  assumes "length (show_nat n) \<le> int_max_str_digits"
  shows "connect_mysql (env(''MYSQL_PORT'' \<mapsto> show_nat n)) (\<lambda>cfg. Inr (cfg_port cfg)) = Inr (int n) \<and>
         connect_mysql (env(''MYSQL_PORT'' \<mapsto> CHR ''-'' # show_nat n)) (\<lambda>cfg. Inr (cfg_port cfg))
           = Inr (- int n)"
  using py_int_str_show_nat [OF assms]
  by (simp add: connect_mysql_def getenv_def mysql_config_of_def)

theorem connect_mysql_port_roundtrip_witness:
  "connect_mysql ((\<lambda>_. None)(''MYSQL_PORT'' \<mapsto> ''3307'')) (\<lambda>cfg. Inr (cfg_port cfg)) = Inr 3307 \<and>
   connect_mysql ((\<lambda>_. None)(''MYSQL_PORT'' \<mapsto> ''-3307'')) (\<lambda>cfg. Inr (cfg_port cfg)) = Inr (- 3307)"
proof -
  have "show_nat 3307 = ''3307''" "length (show_nat 3307) \<le> int_max_str_digits"
    by (simp_all add: str_simps)
  then show ?thesis
    using connect_mysql_port_roundtrip [of 3307 "\<lambda>_. None"] by simp
qed

text \<open>
  C30. A port that \<open>int()\<close> refuses (an empty \<open>MYSQL_PORT\<close>, which \<open>os.getenv\<close> does
  not replace by the default, or a non-number) makes \<open>connect_mysql\<close> fail with
  "MySQL connection failed: " and the \<open>ValueError\<close>'s message, whatever the driver
  would do: the driver is never called.
\<close>

theorem connect_mysql_port_error:
  assumes "py_int_str (getenv env ''MYSQL_PORT'' ''3306'') = Inl e"
  shows "connect_mysql env connect = Inl (''MySQL connection failed: '' @ py_error_str e)"
  using assms by (simp add: connect_mysql_def)

theorem connect_mysql_port_error_witness:
  "connect_mysql (\<lambda>k. if k = ''MYSQL_PORT'' then Some [] else None) (\<lambda>_. Inr ()) =
     Inl (''MySQL connection failed: invalid literal for int() with base 10: '' @ [CHR 0x27, CHR 0x27])"
proof -
  have p: "py_int_str (getenv (\<lambda>k. if k = ''MYSQL_PORT'' then Some [] else None) ''MYSQL_PORT'' ''3306'')
          = Inl (InvalidLiteral [])"
    by (simp add: getenv_def int_str_simps str_simps)
  have m: "py_error_str (InvalidLiteral []) =
      ''invalid literal for int() with base 10: '' @ [CHR 0x27, CHR 0x27]"
    by (simp add: int_str_simps Let_def)
  show ?thesis
    using connect_mysql_port_error [OF p, of "\<lambda>_. Inr ()"] m by simp
qed

text \<open>
  C32. The transaction responder reconnects for every question: when the database named
  by \<open>MYSQL_URI\<close> cannot be opened, \<open>query_sql_database\<close> answers "Error: Failed to
  initialize SQL agent: " with the driver's message and makes no call to the model, the
  database or the agent.
\<close>

theorem init_failure_answer:
  assumes "from_uri b uri = Inl e"
  shows "query_sql_database (init_sql_agent uri b) q = (''Error: Failed to initialize SQL agent: '' @ e, [])"
  using assms by (simp add: init_sql_agent_def query_sql_database_def Let_def)

theorem init_failure_answer_witness:
  "query_sql_database
     (init_sql_agent ''mysql+pymysql://root@db/valuefy''
        \<lparr>from_uri = (\<lambda>_. Inl ''(2003, Can't connect to MySQL server)''), chat_model = Inr (),
         get_table_info = Inl ''no connection'', make_agent = (\<lambda>_. Inl ''no connection''),
         backend_llm = (\<lambda>_. Inl ''unused''), backend_run = (\<lambda>_. Inl ''unused'')\<rparr>)
     ''total amount invested''
   = (''Error: Failed to initialize SQL agent: (2003, Can't connect to MySQL server)'', [])"
  using init_failure_answer [of
      "\<lparr>from_uri = (\<lambda>_. Inl ''(2003, Can't connect to MySQL server)''), chat_model = Inr (),
         get_table_info = Inl ''no connection'', make_agent = (\<lambda>_. Inl ''no connection''),
         backend_llm = (\<lambda>_. Inl ''unused''), backend_run = (\<lambda>_. Inl ''unused'')\<rparr>"
      "''mysql+pymysql://root@db/valuefy''"]
  by simp

text \<open>
  C35. The two prompts disagree on a missing schema: when the schema cannot be read, the
  agent is built with "Schema not available" in its prompt, while the statement-generation
  prompt of the fallback path prints \<open>None\<close>.
\<close>

theorem unreadable_schema_prompts:
  assumes "get_table_info b = Inl e"
  shows "agent_invoke (init_sql_agent uri b) =
           (case make_agent b ''Schema not available'' of Inl _ \<Rightarrow> None | Inr a \<Rightarrow> Some a) \<and>
         (\<exists>l c d. gen_prompt (init_sql_agent uri b) q p = SqlGenPrompt ''None'' q l c d)"
  using assms by (simp add: init_sql_agent_def gen_prompt_def agent_schema_def Let_def)

theorem unreadable_schema_prompts_witness:
  "agent_invoke (init_sql_agent ''mysql://db''
      \<lparr>from_uri = (\<lambda>_. Inr ()), chat_model = Inr (), get_table_info = Inl ''timeout'',
       make_agent = (\<lambda>s. if s = ''Schema not available'' then Inl ''no tools'' else Inr (\<lambda>_. Inr None)),
       backend_llm = (\<lambda>_. Inl ''unused''), backend_run = (\<lambda>_. Inl ''unused'')\<rparr>) = None \<and>
   (\<exists>l c d. gen_prompt (init_sql_agent ''mysql://db''
      \<lparr>from_uri = (\<lambda>_. Inr ()), chat_model = Inr (), get_table_info = Inl ''timeout'',
       make_agent = (\<lambda>s. if s = ''Schema not available'' then Inl ''no tools'' else Inr (\<lambda>_. Inr None)),
       backend_llm = (\<lambda>_. Inl ''unused''), backend_run = (\<lambda>_. Inl ''unused'')\<rparr>)
      ''total amount invested'' sql_parsed_init
      = SqlGenPrompt ''None'' ''total amount invested'' l c d)"
  using unreadable_schema_prompts [of
      "\<lparr>from_uri = (\<lambda>_. Inr ()), chat_model = Inr (), get_table_info = Inl ''timeout'',
       make_agent = (\<lambda>s. if s = ''Schema not available'' then Inl ''no tools'' else Inr (\<lambda>_. Inr None)),
       backend_llm = (\<lambda>_. Inl ''unused''), backend_run = (\<lambda>_. Inl ''unused'')\<rparr>"
      "''timeout''" "''mysql://db''" "''total amount invested''" sql_parsed_init]
  by simp

end
