(* ===== verification/Gateway.thy ===== *)
theory Gateway
  imports Classifier MockResponder SqlAgent Config
begin

text \<open>
  The request gateway of \<open>src/backend/main.py\<close>: \<open>ask_question\<close> (validation,
  routing by \<open>determine_query_type\<close>, dispatch, the degraded answer when a responder
  raises, the visualisation tag), \<open>health_check\<close>, and the application's start-up, which
  imports the two agent modules. \<open>ask_with\<close> is the handler over
  any two responders that may raise (\<open>Inl\<close> the exception text); \<open>ask_question\<close>
  instantiates it with \<open>query_mongo\<close> and \<open>query_sql_database\<close>, which never raise.
  \<open>processing_time\<close> is wall-clock time and is a parameter. The server-error branch
  (\<open>except Exception\<close> around the whole handler) is not reachable in the model: every
  step outside the responders is total.
\<close>

datatype viz_type = PortfolioAnalysis | TransactionAnalysis | RelationshipAnalysis

record visualization =
  viz_type :: viz_type
  viz_query :: string
  viz_query_type :: domain

record question_response =
  response_answer :: string
  processing_time :: string
  visualization_data :: "visualization option"

datatype http_error = HTTPException nat string

definition visualization_for :: "string \<Rightarrow> domain \<Rightarrow> visualization option" where
  "visualization_for question qt =
     (let ql = lower question;
          v = (\<lambda>k. Some \<lparr>viz_type = k, viz_query = question, viz_query_type = qt\<rparr>)
      in if any_in [''top'', ''portfolio'', ''investor'', ''manager'', ''client'', ''wealth member''] ql
         then v PortfolioAnalysis
         else if any_in [''transaction'', ''amount'', ''investment'', ''trend'', ''breakdown'',
                         ''breakup''] ql
         then v TransactionAnalysis
         else if any_in [''relationship manager'', ''rm'', ''holders''] ql
         then v RelationshipAnalysis
         else None)"

definition agent_error_answer :: "string \<Rightarrow> string" where
  "agent_error_answer e = ''Sorry, I encountered an error while processing your question: ''
     @ e @ ''. Please try rephrasing your question.''"

definition ask_with ::
  "(string \<Rightarrow> string + mongo_result) \<Rightarrow> (string \<Rightarrow> (string + string) \<times> ext_call list) \<Rightarrow>
   string \<Rightarrow> string \<Rightarrow> (http_error + question_response) \<times> ext_call list" where
  "ask_with mongo sql pt question =
     (if strip question = [] then (Inl (HTTPException 400 ''Question cannot be empty''), [])
      else
        (let qt = determine_query_type question;
             (resp, calls) =
               (if qt = Mongo then
                  (case mongo question of
                     Inr r \<Rightarrow> (answer r, [])
                   | Inl e \<Rightarrow> (agent_error_answer e, []))
                else
                  (case sql question of
                     (Inr a, cs) \<Rightarrow> (a, cs)
                   | (Inl e, cs) \<Rightarrow> (agent_error_answer e, cs)))
         in (Inr \<lparr>response_answer = resp, processing_time = pt,
                  visualization_data = visualization_for question qt\<rparr>, calls)))"

definition ask_question ::
  "sql_env \<Rightarrow> string \<Rightarrow> string \<Rightarrow> (http_error + question_response) \<times> ext_call list" where
  "ask_question env pt question =
     ask_with (\<lambda>q. Inr (query_mongo q))
       (\<lambda>q. (Inr (fst (query_sql_database env q)), snd (query_sql_database env q))) pt question"

text \<open>A concrete environment for the examples: the language model and the database are
  unreachable and raise, and the agent could not be built.\<close>

definition offline_env :: sql_env where
  "offline_env = \<lparr>llm_invoke = (\<lambda>_. Inl ''Connection error.''),
     db_run = (\<lambda>_. Inl ''Can't connect to MySQL server''), agent_invoke = None,
     schema_info = None, init_error = None\<rparr>"

text \<open>\<open>GET /health\<close>: the environment as it is when the request is served, which is the
  one the modules were imported under, since nothing in the backend sets a variable. The
  \<open>except\<close> branch is unreachable: \<open>os.getenv\<close> and \<open>bool\<close> do not raise. The
  timestamp is wall-clock time and is left out.\<close>

record health_status =
  health :: string
  openai_configured :: bool
  mongodb_configured :: bool
  mysql_configured :: bool

definition health_check :: "os_env \<Rightarrow> health_status" where
  "health_check env =
     \<lparr>health = ''healthy'', openai_configured = configured (env ''OPENAI_API_KEY''),
      mongodb_configured = configured (env ''MONGODB_URI''),
      mysql_configured = configured (env ''MYSQL_URI'')\<rparr>"

subsection \<open>Start-up\<close>

text \<open>Importing \<open>mongo_agent.py\<close> builds the module's \<open>ChatOpenAI\<close> client from
  \<open>OPENAI_API_KEY\<close> (a collaborator, which may raise); the rest of the module is
  constants. \<open>main.py\<close> imports \<open>mongo_agent\<close> and then \<open>sql_agent\<close>; the
  application exists only if both imports succeed.\<close>

definition mongo_agent_module_init :: "(string option \<Rightarrow> string + unit) \<Rightarrow> os_env \<Rightarrow> string + unit" where
  "mongo_agent_module_init chat_openai env = chat_openai (env ''OPENAI_API_KEY'')"

definition app_startup ::
  "(string option \<Rightarrow> string + unit) \<Rightarrow> os_env \<Rightarrow> string + string \<times> string" where
  "app_startup chat_openai env =
     (case mongo_agent_module_init chat_openai env of
        Inl e \<Rightarrow> Inl e
      | Inr _ \<Rightarrow> sql_agent_module_init env)"

subsection \<open>Properties\<close>

text \<open>
  C25. A blank question is rejected with status 400 before anything else happens: no
  responder is called and no external call is made, whatever the responders are.
\<close>

theorem blank_question_rejected:
  assumes "strip q = []"
  shows "ask_with mongo sql pt q = (Inl (HTTPException 400 ''Question cannot be empty''), [])"
  using assms by (simp add: ask_with_def)

theorem blank_question_rejected_witness:
  "ask_question offline_env ''0.00s'' ''   '' = (Inl (HTTPException 400 ''Question cannot be empty''), [])"
proof -
  have "strip ''   '' = []" by (simp add: str_simps)
  then show ?thesis
    unfolding ask_question_def by (rule blank_question_rejected)
qed

text \<open>
  C26. Exactly one responder answers: a non-blank question is answered by the mock
  responder when the classifier says people/portfolio, with no external call, and by the
  transaction responder otherwise, with its calls; the responders never raise, so the
  degraded answer never appears, and the visualisation tag records the chosen domain.
\<close>

theorem ask_question_dispatch:
  assumes "strip q \<noteq> []"
  shows "ask_question env pt q =
    (Inr \<lparr>response_answer = (if determine_query_type q = Mongo then answer (query_mongo q)
                             else fst (query_sql_database env q)),
          processing_time = pt,
          visualization_data = visualization_for q (determine_query_type q)\<rparr>,
     if determine_query_type q = Mongo then [] else snd (query_sql_database env q))"
  using assms
  by (cases "determine_query_type q") (simp_all add: ask_question_def ask_with_def split_def Let_def)

theorem ask_question_dispatch_witness:
  "ask_question offline_env ''0.01s'' ''Who is Virat Kohli?'' =
    (Inr \<lparr>response_answer = answer (query_mongo ''Who is Virat Kohli?''),
          processing_time = ''0.01s'',
          visualization_data = visualization_for ''Who is Virat Kohli?'' Mongo\<rparr>, [])"
proof -
  have "strip ''Who is Virat Kohli?'' \<noteq> []" "determine_query_type ''Who is Virat Kohli?'' = Mongo"
    by code_simp+
  then show ?thesis using ask_question_dispatch [of "''Who is Virat Kohli?''"] by simp
qed



text \<open>
  C28. The visualisation tag "relationship analysis" is unreachable for questions that
  name the relationship manager: "manager" is in the first keyword list, so they are
  tagged as portfolio analysis.
\<close>

theorem rm_phrase_tagged_portfolio:
  assumes "contains (lower q) ''relationship manager''"
  shows "visualization_for q qt =
           Some \<lparr>viz_type = PortfolioAnalysis, viz_query = q, viz_query_type = qt\<rparr>"
proof -
  have "contains ''relationship manager'' ''manager''" by code_simp
  then have "contains (lower q) ''manager''"
    using assms by (meson contains_iff_sublist sublist_order.order.trans)
  then show ?thesis by (simp add: visualization_for_def any_in_def Let_def)
qed

theorem rm_phrase_tagged_portfolio_witness:
  "visualization_for ''Show the relationship manager of each client'' Mongo =
     Some \<lparr>viz_type = PortfolioAnalysis, viz_query = ''Show the relationship manager of each client'',
           viz_query_type = Mongo\<rparr>"
proof -
  have "contains (lower ''Show the relationship manager of each client'') ''relationship manager''"
    by code_simp
  then show ?thesis by (rule rm_phrase_tagged_portfolio)
qed

text \<open>
  C31. The health probe cannot report the language-model key or the MySQL URI as
  missing: a running application was imported under an environment where both are set
  and non-empty, so \<open>/health\<close> reports both configured; only the MongoDB URI, which
  nothing requires, can be reported missing.
\<close>

theorem startup_health_configured:
  assumes "app_startup chat_openai env = Inr cfg"
  shows "openai_configured (health_check env) \<and> mysql_configured (health_check env)"
  using assms
  by (auto simp: app_startup_def sql_agent_module_init_def health_check_def split: sum.splits if_splits)

theorem startup_health_configured_witness:
  "openai_configured (health_check (\<lambda>k. if k = ''OPENAI_API_KEY'' then Some ''sk-test''
                          else if k = ''MYSQL_URI'' then Some ''mysql://db'' else None)) \<and>
   mysql_configured (health_check (\<lambda>k. if k = ''OPENAI_API_KEY'' then Some ''sk-test''
                          else if k = ''MYSQL_URI'' then Some ''mysql://db'' else None)) \<and>
   \<not> mongodb_configured (health_check (\<lambda>k. if k = ''OPENAI_API_KEY'' then Some ''sk-test''
                          else if k = ''MYSQL_URI'' then Some ''mysql://db'' else None))"
proof -
  have "app_startup (\<lambda>_. Inr ()) (\<lambda>k. if k = ''OPENAI_API_KEY'' then Some ''sk-test''
                          else if k = ''MYSQL_URI'' then Some ''mysql://db'' else None)
          = Inr (''sk-test'', ''mysql://db'')"
    by (simp add: app_startup_def mongo_agent_module_init_def sql_agent_module_init_def configured_def)
  then have "openai_configured (health_check (\<lambda>k. if k = ''OPENAI_API_KEY'' then Some ''sk-test''
                          else if k = ''MYSQL_URI'' then Some ''mysql://db'' else None)) \<and>
     mysql_configured (health_check (\<lambda>k. if k = ''OPENAI_API_KEY'' then Some ''sk-test''
                          else if k = ''MYSQL_URI'' then Some ''mysql://db'' else None))"
    by (rule startup_health_configured)
  then show ?thesis
    by (simp add: health_check_def configured_def)
qed

end
