(* ===== verification/Spec2Isabelle.thy ===== *)
theory Spec2Isabelle
  imports Classifier Roster MockResponder SqlAgent Config Gateway
begin

text \<open>
  A verification library for the wealth-portfolio question-answering backend
  (\<open>src/backend\<close>). The backend answers a natural-language question about a fictitious
  wealth-management dataset. \<open>main.py\<close> is the HTTP gateway: \<open>ask_question\<close>
  rejects a blank question, routes the rest with the keyword classifier
  \<open>determine_query_type\<close> either to the mock client responder
  (\<open>agents/mongo_agent.py\<close>, \<open>query_mongo\<close>, which answers from a static roster of
  ten clients and never touches MongoDB) or to the transaction responder
  (\<open>agents/sql_agent.py\<close>, \<open>query_sql_database\<close>, which asks a language model for
  SQL, runs it on MySQL with one column-name correction retry, and asks the model to
  phrase the result), and attaches a coarse visualisation tag.

  Theories, leaf first:
  \<^item> \<open>Prelude\<close>: the Python builtins the code relies on, as executable HOL functions
    on byte strings: \<open>str.lower\<close>/\<open>upper\<close>, substring \<open>in\<close> (proved equal to
    \<open>Sublist.sublist\<close>), \<open>strip\<close>, \<open>join\<close>, \<open>len\<close> as a count of code points,
    truthiness of \<open>str | None\<close>, \<open>int()\<close> of a digit run and of an arbitrary
    \<open>str\<close> (whitespace, sign, underscores, CPython's 4300-digit limit, and the
    \<open>ValueError\<close> message with \<open>repr\<close> of the argument), \<open>f"{n:,}"\<close>, stable
    \<open>sorted(..., reverse=...)\<close> in CPython's reverse-sort-reverse form, and the regular
    expressions \<open>top\s+(\d+)\<close>, \<open>client\s+([A-Z]\d+)\<close>, \<open>([A-Z]\d+)\<close> and
    \<open>\bword\b\<close> substitution under \<open>re.IGNORECASE\<close>. Its lemmas: decimal round trips
    of \<open>int()\<close> and of the thousands separator, the two \<open>int()\<close> models agree on
    digit runs, lower-casing forgets upper-casing, lower-cased text has no upper-case
    letter, stability and descending order of the reverse sort.
  \<^item> \<open>Classifier\<close>: \<open>determine_query_type\<close> (main.py) with its keyword tables and
    scores. The spec's algorithm is a sequence of steps; the properties are the steps
    the code must respect for every question: case is ignored (C1), the top-N rule is
    decided before the scores (C2), and the breakup-per-manager special case before
    both (C3).
  \<^item> \<open>Roster\<close>: the client record and \<open>mock_clients\<close> (mongo_agent.py), the
    ranking by portfolio value and the per-manager aggregation, with their
    specifications: top-N correctness (C4), tie-breaking by roster order (C5), the
    aggregation refines a per-manager sum and keeps first-appearance order (C6) and
    preserves the grand total (C7).
  \<^item> \<open>MockResponder\<close>: \<open>query_mongo\<close>, \<open>parse_question\<close> (one definition per
    block of the code: limit, names, portfolio, manager, sort), \<open>get_mock_response\<close>
    (every branch in the code's order, with the exact answer text) and
    \<open>create_simple_query\<close> (mongo_agent.py). The only exception, \<open>int()\<close> refusing a
    long number, is an error value that \<open>query_mongo\<close> turns into an answer. Its
    properties, each for every question: the client-identifier branch is dead (C8), the
    who-is and top-N answers (C9, C10), the count announced against the count listed
    (C11), the filter document agrees with the in-memory filter (C12), the error answer
    (C13), "performing" triggers the manager ranking (C14), the rupee rendering reads
    back (C15), and the intent record is well formed (C34, an invariant kept block by
    block).
  \<^item> \<open>SqlAgent\<close>: \<open>SQLQueryAgent.query\<close> and its helpers and \<open>query_sql_database\<close>
    (sql_agent.py). The language model, the database, the LangChain agent, the cached
    schema and the constructor's failure form the record \<open>sql_env\<close>; each collaborator
    either answers or raises (\<open>Inl\<close> its message), with nothing assumed about what it
    answers. Every operation returns its result with the ordered list of external calls
    (\<open>ext_call\<close>) its own code made; the agent's internal calls are one opaque
    \<open>AgentInvoke\<close>, so the properties about calls are stated for the paths that make
    no such call. Properties: at most one retry and of the corrected statement (C16,
    C17), the order and content of the fallback path's calls (C18), the cleaned
    statement (C19), the limit reaches the statement (C20), the agent tier (C21), no
    formatting of a failed run (C22, C23), the error answer (C24) and the well-formed
    intent record (C33).
  \<^item> \<open>Config\<close>: the process environment as a partial map \<open>os_env\<close>;
    \<open>connect_mysql\<close> and \<open>get_mysql_connection\<close> (db/mysql_conn.py) and
    \<open>get_mongo_collection\<close> (db/mongo_conn.py) over driver collaborators; the
    import-time checks of sql_agent.py; and the constructor of \<open>SQLQueryAgent\<close>
    (\<open>init_sql_agent\<close>), which builds the \<open>sql_env\<close> of the transaction responder
    from the backend collaborators, so that \<open>query_sql_database (init_sql_agent uri b)\<close>
    is the code's \<open>SQLQueryAgent().query(question)\<close>. Its properties: the port round
    trip (C29), a refused port (C30), the answer when the database cannot be opened
    (C32) and the two schema texts (C35).
  \<^item> \<open>Gateway\<close>: \<open>ask_question\<close>, \<open>health_check\<close> and the application's start-up
    (main.py imports mongo_agent and then sql_agent). The handler is \<open>ask_with\<close>,
    stated over any two responders that may raise: this is the interface between the
    gateway and the responders, and C25 and C27 hold for every responder.
    \<open>ask_question\<close> instantiates it with \<open>query_mongo\<close> and
    \<open>query_sql_database\<close>, which never raise, so exactly one responder answers and the
    degraded answer never appears (C26), and the "relationship analysis" tag is
    unreachable for questions naming the relationship manager (C28). Across start-up and
    requests: the health probe of a running application always reports the key and the
    MySQL URI as configured (C31).

  Every loop of the code is a bounded iteration over a finite list (the roster, the
  keyword tables, the column corrections, the characters of a string), so every
  definition is a total recursive function and no fuel is needed; the recursions
  that are not structural (\<open>group3\<close>, \<open>remove_fence\<close>, \<open>sub_word\<close>) have
  termination proofs by a length measure. Integers are Python's unbounded integers:
  \<open>nat\<close> where the code reads a digit run matched by a regular expression, \<open>int\<close>
  for \<open>int()\<close> of an arbitrary string (the port), with the interpreter's 4300-digit
  limit written out. That limit is CPython's since 3.11; the repository pins no
  Python version, and on an earlier interpreter the error paths of C13 and C24 cannot
  occur. \<open>repr\<close> copies the bytes of non-ASCII characters, which is
  CPython's behaviour for printable ones.

  Not modelled: the FastAPI application object, CORS, the root endpoint and uvicorn
  (framework configuration); the unused MongoDB prompt template of mongo_agent.py (the
  real MongoDB path is disabled); the inside of the LangChain agent and its ReAct loop,
  of the drivers and of the language-model client, which are collaborators of the model
  (their answer or their exception); logging and printing; wall-clock time, which is a
  parameter; and the developer scripts \<open>test_agent\<close>, \<open>debug_database\<close>,
  \<open>get_sql_agent\<close> and \<open>test_mysql\<close>, console I/O run by hand.
\<close>

end
